theory Spec2Isabelle
  imports Main "HOL-Library.Word"
begin

section \<open>JavaScript strings\<close>

text \<open>
  A JavaScript string is a sequence of UTF-16 code units. All literals of
  \<^verbatim>\<open>src/src/Ai-agent.ts\<close> that matter here are ASCII; \<open>js\<close> embeds an ASCII
  literal.
\<close>

type_synonym jsstring = "16 word list"

definition js :: "string \<Rightarrow> jsstring" where
  "js s = map of_char s"

text \<open>\<open>String.prototype.trim\<close>: white space and line terminators of ECMAScript.\<close>

definition isWhiteSpace :: "16 word \<Rightarrow> bool" where
  "isWhiteSpace c \<longleftrightarrow>
     c \<in> {0x09, 0x0A, 0x0B, 0x0C, 0x0D, 0x20, 0xA0, 0x1680, 0x2028, 0x2029,
          0x202F, 0x205F, 0x3000, 0xFEFF}
     \<or> (0x2000 \<le> c \<and> c \<le> 0x200A)"

definition trim :: "jsstring \<Rightarrow> jsstring" where
  "trim s = rev (dropWhile isWhiteSpace (rev (dropWhile isWhiteSpace s)))"

definition startsWith :: "jsstring \<Rightarrow> jsstring \<Rightarrow> bool" where
  "startsWith s p \<longleftrightarrow> take (length p) s = p"

definition endsWith :: "jsstring \<Rightarrow> jsstring \<Rightarrow> bool" where
  "endsWith s p \<longleftrightarrow> length p \<le> length s \<and> drop (length s - length p) s = p"

text \<open>\<open>String.prototype.includes\<close>.\<close>

fun includesStr :: "jsstring \<Rightarrow> jsstring \<Rightarrow> bool" where
  "includesStr [] p = (p = [])"
| "includesStr (c # cs) p = (startsWith (c # cs) p \<or> includesStr cs p)"

text \<open>\<open>String.prototype.split\<close> with a one-character separator; the result is never empty.\<close>

fun splitOn :: "16 word \<Rightarrow> jsstring \<Rightarrow> jsstring list" where
  "splitOn sep [] = [[]]"
| "splitOn sep (c # cs) =
     (if c = sep then [] # splitOn sep cs
      else (case splitOn sep cs of [] \<Rightarrow> [[c]] | x # xs \<Rightarrow> (c # x) # xs))"

text \<open>\<open>Array.prototype.join\<close>.\<close>

fun joinWith :: "jsstring \<Rightarrow> jsstring list \<Rightarrow> jsstring" where
  "joinWith sep [] = []"
| "joinWith sep [x] = x"
| "joinWith sep (x # y # ys) = x @ sep @ joinWith sep (y # ys)"

text \<open>
  \<open>String.prototype.toLowerCase\<close>, on the ASCII letters. The source compares the
  lowered string with the ASCII literals \<open>bash\<close> and \<open>exit\<close> only, and no code unit
  outside ASCII is lowered to one of their letters, so the comparison is the same.
\<close>

definition toLowerCase :: "jsstring \<Rightarrow> jsstring" where
  "toLowerCase s = map (\<lambda>c. if 0x41 \<le> c \<and> c \<le> 0x5A then c + 0x20 else c) s"

section \<open>Fence stripping and the file-creation test\<close>

text \<open>The class \<open>[a-z]\<close> under the flag \<open>i\<close> (no flag \<open>u\<close>): the ASCII letters.\<close>

definition isAsciiLetter :: "16 word \<Rightarrow> bool" where
  "isAsciiLetter c \<longleftrightarrow> (0x41 \<le> c \<and> c \<le> 0x5A) \<or> (0x61 \<le> c \<and> c \<le> 0x7A)"

definition fence :: jsstring where
  "fence = js [CHR 0x60, CHR 0x60, CHR 0x60]"

text \<open>The first \<open>replace\<close> of \<open>stripCodeFences\<close>: three backticks at the start of the
  input, then as many letters as follow, then one line feed if there is one.\<close>

definition stripLeadingFence :: "jsstring \<Rightarrow> jsstring" where
  "stripLeadingFence code =
     (if startsWith code fence
      then (case dropWhile isAsciiLetter (drop 3 code) of
              [] \<Rightarrow> []
            | c # cs \<Rightarrow> if c = 0x0A then cs else c # cs)
      else code)"

text \<open>The second \<open>replace\<close>: three backticks at the very end of the input.\<close>

definition stripTrailingFence :: "jsstring \<Rightarrow> jsstring" where
  "stripTrailingFence code =
     (if endsWith code fence then take (length code - 3) code else code)"

definition stripCodeFences :: "jsstring \<Rightarrow> jsstring" where
  "stripCodeFences code = trim (stripTrailingFence (stripLeadingFence code))"

definition fileExtensions :: "jsstring list" where
  "fileExtensions = map js [''.js'', ''.ts'', ''.json'', ''.jsx'', ''.tsx'', ''.py'', ''.sh'',
     ''.html'', ''.css'']"

definition isFileCreationCommand :: "jsstring \<Rightarrow> bool" where
  "isFileCreationCommand cmd \<longleftrightarrow>
     list_ex (endsWith cmd) fileExtensions
     \<or> includesStr cmd (js ''touch'')
     \<or> includesStr cmd (js ''>'')"

section \<open>Splitting a plan into commands, and the dispatch of one command\<close>

definition isLongRunningCommand :: "jsstring \<Rightarrow> bool" where
  "isLongRunningCommand cmd \<longleftrightarrow>
     list_ex (includesStr cmd) (map js [''npm run dev'', ''yarn dev'', ''pnpm dev''])"

text \<open>The first guard of the \<open>forEach\<close> of \<open>executePlan\<close>.\<close>

definition isSkipped :: "jsstring \<Rightarrow> bool" where
  "isSkipped cmd \<longleftrightarrow>
     cmd = [] \<or> startsWith cmd (js ''#'') \<or> startsWith cmd fence \<or> toLowerCase cmd = js ''bash''"

definition planCommands :: "jsstring \<Rightarrow> jsstring list" where
  "planCommands plan =
     filter (\<lambda>cmd. \<not> isSkipped cmd \<and> \<not> isLongRunningCommand cmd)
       (map trim (splitOn 0x0A plan))"

text \<open>The if-chain of the loop body of \<open>executePlan\<close>, with what each branch reads off the
  command: the directory of a \<open>cd\<close>, the last blank-separated word of a file creation.\<close>

datatype dispatch = DirectoryChange jsstring | FileCreation jsstring | ShellCommand

definition classify :: "jsstring \<Rightarrow> dispatch" where
  "classify cmd =
     (if startsWith cmd (js ''cd '') then DirectoryChange (trim (drop 3 cmd))
      else if isFileCreationCommand cmd then FileCreation (last (splitOn 0x20 cmd))
      else ShellCommand)"

section \<open>Paths\<close>

text \<open>
  \<open>path.resolve\<close> and \<open>path.dirname\<close> are Node's, not the repository's; they are
  modelled in their POSIX flavour. \<open>normalizeSegments\<close> is Node's \<open>normalizeString\<close> on
  the segments between slashes: empty segments and \<open>.\<close> are dropped, \<open>..\<close> removes the
  segment before it, and is kept only where going above the start is allowed.
\<close>

definition slash :: "16 word" where
  "slash = 0x2F"

definition isAbsolute :: "jsstring \<Rightarrow> bool" where
  "isAbsolute p \<longleftrightarrow> (case p of [] \<Rightarrow> False | c # _ \<Rightarrow> c = slash)"

fun normalizeSegments :: "bool \<Rightarrow> jsstring list \<Rightarrow> jsstring list \<Rightarrow> jsstring list" where
  "normalizeSegments allowAboveRoot acc [] = acc"
| "normalizeSegments allowAboveRoot acc (seg # segs) =
     (if seg = [] \<or> seg = js ''.'' then normalizeSegments allowAboveRoot acc segs
      else if seg = js ''..'' then
        (if acc = [] \<or> last acc = js ''..''
         then normalizeSegments allowAboveRoot (if allowAboveRoot then acc @ [seg] else acc) segs
         else normalizeSegments allowAboveRoot (butlast acc) segs)
      else normalizeSegments allowAboveRoot (acc @ [seg]) segs)"

text \<open>\<open>path.resolve(from, to)\<close>, with the working directory of the process for the case
  that neither argument is absolute. An empty argument is passed over.\<close>

definition withSlash :: "jsstring \<Rightarrow> jsstring" where
  "withSlash p = (if p = [] then [] else p @ [slash])"

definition resolve :: "jsstring \<Rightarrow> jsstring \<Rightarrow> jsstring \<Rightarrow> jsstring" where
  "resolve processCwd from to =
     (let resolvedPath =
            (if isAbsolute to then withSlash to
             else if isAbsolute from then withSlash from @ withSlash to
             else withSlash processCwd @ withSlash from @ withSlash to);
          resolvedAbsolute = (isAbsolute to \<or> isAbsolute from \<or> isAbsolute processCwd);
          normalized = joinWith [slash]
            (normalizeSegments (\<not> resolvedAbsolute) [] (splitOn slash resolvedPath))
      in if resolvedAbsolute then slash # normalized
         else if normalized \<noteq> [] then normalized else js ''.'')"

text \<open>\<open>path.dirname\<close>: the scan from the end of the path down to index 1, for the first
  slash after a character that is not one.\<close>

definition dirname :: "jsstring \<Rightarrow> jsstring" where
  "dirname p =
     (if p = [] then js ''.''
      else let hasRoot = (hd p = slash);
               rest = dropWhile (\<lambda>c. c \<noteq> slash) (dropWhile (\<lambda>c. c = slash) (rev (tl p)));
               endIdx = length rest
           in if rest = [] then (if hasRoot then js ''/'' else js ''.'')
              else if hasRoot \<and> endIdx = 1 then js ''//''
              else take endIdx p)"

section \<open>The environment\<close>

text \<open>
  The subprocesses, the generation service, the file system and the operator are outside
  the repository. They are a parameter of the model: a record of operations on an
  environment state \<open>'w\<close>, of which nothing is assumed. An operation that can throw
  or reject returns a value that says so: \<open>False\<close> or \<open>None\<close> for the file system
  and the prompts, \<open>ExecError\<close> for a subprocess that exits with a code other than 0
  or cannot be spawned. \<open>existsSync\<close> and \<open>process.cwd\<close> only read the environment.

  What the program prints with \<open>console.log\<close> and \<open>console.error\<close> is left out:
  it does not act on the control flow. The model name passed to the generation service
  is the same constant at the three calls and is left out as well.
\<close>

datatype exec_result =
    ExecOk jsstring jsstring      \<comment> \<open>exit code 0: stdout, stderr\<close>
  | ExecError jsstring jsstring   \<comment> \<open>rejected: \<open>error.stderr\<close> (empty when absent), \<open>error.message\<close>\<close>

datatype gen_result =
    GenText jsstring    \<comment> \<open>\<open>response.text\<close> is a string\<close>
  | GenNoText           \<comment> \<open>\<open>response.text\<close> is undefined\<close>
  | GenRejected         \<comment> \<open>the call rejects\<close>

datatype question = AskTask | AskFeedback

record 'w sys =
  execAsync :: "jsstring \<Rightarrow> jsstring option \<Rightarrow> 'w \<Rightarrow> exec_result \<times> 'w"
  generateContent :: "jsstring \<Rightarrow> 'w \<Rightarrow> gen_result \<times> 'w"
  existsSync :: "jsstring \<Rightarrow> 'w \<Rightarrow> bool"
  mkdir :: "jsstring \<Rightarrow> 'w \<Rightarrow> bool \<times> 'w"
  writeFile :: "jsstring \<Rightarrow> jsstring \<Rightarrow> 'w \<Rightarrow> bool \<times> 'w"
  readFile :: "jsstring \<Rightarrow> 'w \<Rightarrow> jsstring option"
  chdir :: "jsstring \<Rightarrow> 'w \<Rightarrow> bool \<times> 'w"
  cwd :: "'w \<Rightarrow> jsstring"
  promptInput :: "question \<Rightarrow> 'w \<Rightarrow> jsstring option \<times> 'w"
  promptConfirm :: "'w \<Rightarrow> bool option \<times> 'w"

text \<open>
  The model keeps, beside the environment, the list of the subprocesses spawned and of
  the calls to the generation service, in order, each call with the function that made
  it. The environment cannot touch this list.
\<close>

datatype caller = GenerateFileContent | RunFileAndFixIfError | GetRefinedPlan

datatype event =
    Spawned jsstring "jsstring option"    \<comment> \<open>command, option \<open>cwd\<close>\<close>
  | Asked caller jsstring                 \<comment> \<open>calling function, prompt\<close>

record 'w world =
  env :: 'w
  trace :: "event list"

datatype error = OracleError | TypeError | FileSystemError | PromptError

definition spawn :: "'w sys \<Rightarrow> jsstring \<Rightarrow> jsstring option \<Rightarrow> 'w world \<Rightarrow> exec_result \<times> 'w world" where
  "spawn sys cmd dir w =
     (case execAsync sys cmd dir (env w) of
        (r, e) \<Rightarrow> (r, \<lparr>env = e, trace = trace w @ [Spawned cmd dir]\<rparr>))"

text \<open>A call of \<open>genAI.models.generateContent\<close> followed by \<open>response.text!.trim()\<close>, which
  throws a \<open>TypeError\<close> when the response has no text.\<close>

definition ask :: "'w sys \<Rightarrow> caller \<Rightarrow> jsstring \<Rightarrow> 'w world \<Rightarrow> (error + jsstring) \<times> 'w world" where
  "ask sys who prompt w =
     (case generateContent sys prompt (env w) of
        (r, e) \<Rightarrow>
          ((case r of
              GenText t \<Rightarrow> Inr (trim t)
            | GenNoText \<Rightarrow> Inl TypeError
            | GenRejected \<Rightarrow> Inl OracleError),
           \<lparr>env = e, trace = trace w @ [Asked who prompt]\<rparr>))"

definition onEnv :: "('w \<Rightarrow> 'a \<times> 'w) \<Rightarrow> 'w world \<Rightarrow> 'a \<times> 'w world" where
  "onEnv f w = (case f (env w) of (r, e) \<Rightarrow> (r, w\<lparr>env := e\<rparr>))"

section \<open>The data model\<close>

text \<open>The interface \<open>ExecutionState\<close>. The source updates the one object in place and
  hands it back; the model passes the state and returns the new one.\<close>

record ExecutionState =
  currentDir :: jsstring
  executedCommands :: "jsstring list"
  projectRoot :: "jsstring option"

section \<open>Generating, writing and running a file\<close>

definition emDash :: "16 word" where
  "emDash = 0x2014"

definition generatePrompt :: "jsstring \<Rightarrow> jsstring \<Rightarrow> jsstring" where
  "generatePrompt filePath task =
     js ''\<newline>  You are an AI developer. Based on the task '' @ [0x22] @ task @ [0x22]
     @ js '', generate the complete working code for the file: '' @ filePath
     @ js ''.\<newline>  Respond with ONLY the code '' @ [emDash]
     @ js '' no explanation, no markdown, no triple backticks.\<newline>  ''"

definition generateFileContent ::
  "'w sys \<Rightarrow> jsstring \<Rightarrow> jsstring \<Rightarrow> 'w world \<Rightarrow> (error + jsstring) \<times> 'w world" where
  "generateFileContent sys filePath task w =
     (case ask sys GenerateFileContent (generatePrompt filePath task) w of
        (Inl e, w1) \<Rightarrow> (Inl e, w1)
      | (Inr rawCode, w1) \<Rightarrow> (Inr (stripCodeFences rawCode), w1))"

definition writeCodeToFile ::
  "'w sys \<Rightarrow> jsstring \<Rightarrow> jsstring \<Rightarrow> 'w world \<Rightarrow> (error + unit) \<times> 'w world" where
  "writeCodeToFile sys filePath code w =
     (case onEnv (mkdir sys (dirname filePath)) w of
        (False, w1) \<Rightarrow> (Inl FileSystemError, w1)
      | (True, w1) \<Rightarrow>
          (case onEnv (writeFile sys filePath code) w1 of
             (False, w2) \<Rightarrow> (Inl FileSystemError, w2)
           | (True, w2) \<Rightarrow> (Inr (), w2)))"

definition fixPrompt :: "jsstring \<Rightarrow> jsstring \<Rightarrow> jsstring \<Rightarrow> jsstring" where
  "fixPrompt code diagnostic task =
     js ''\<newline>  You are an AI that fixes JavaScript code.\<newline>  Here is the code that failed:\<newline>\<newline>''
     @ code @ js ''\<newline>\<newline>\<newline>  Here is the error:\<newline>\<newline>'' @ diagnostic
     @ js ''\<newline>  Fix it so it works for the task: '' @ task
     @ js ''\<newline>  Return ONLY the fixed code '' @ [emDash]
     @ js '' no markdown, no explanation, no triple backticks.\<newline>    ''"

text \<open>\<open>error.stderr || error.message\<close>\<close>

definition diagnosticOf :: "jsstring \<Rightarrow> jsstring \<Rightarrow> jsstring" where
  "diagnosticOf stderr message = (if stderr \<noteq> [] then stderr else message)"

definition runCommand :: "jsstring \<Rightarrow> jsstring" where
  "runCommand filePath = js ''node '' @ filePath"

text \<open>The recursion of \<open>runFileAndFixIfError\<close> has no bound: the function is partial, and
  \<open>None\<close> is the run that never returns.\<close>

partial_function (option) runFileAndFixIfError ::
  "'w sys \<Rightarrow> jsstring \<Rightarrow> jsstring \<Rightarrow> 'w world \<Rightarrow> ((error + unit) \<times> 'w world) option" where
  "runFileAndFixIfError sys filePath task w =
     (case spawn sys (runCommand filePath) None w of
        (ExecOk out err, w1) \<Rightarrow> Some (Inr (), w1)
      | (ExecError stderr message, w1) \<Rightarrow>
          (case readFile sys filePath (env w1) of
             None \<Rightarrow> Some (Inl FileSystemError, w1)
           | Some code \<Rightarrow>
               (case ask sys RunFileAndFixIfError
                       (fixPrompt code (diagnosticOf stderr message) task) w1 of
                  (Inl e, w2) \<Rightarrow> Some (Inl e, w2)
                | (Inr fixedCodeRaw, w2) \<Rightarrow>
                    (case writeCodeToFile sys filePath (stripCodeFences fixedCodeRaw) w2 of
                       (Inl e, w3) \<Rightarrow> Some (Inl e, w3)
                     | (Inr u, w3) \<Rightarrow> runFileAndFixIfError sys filePath task w3))))"

text \<open>
  \<open>runFileAndFixIfError\<close> again, cut off after \<open>n\<close> Run steps. \<open>None\<close> above is silent
  on what a run that never returns has done; the cut-off run keeps the world it has
  reached: \<open>(Some r, w)\<close> is a run that has returned \<open>r\<close> (\<open>Inl\<close> an exception), and
  \<open>(None, w)\<close> a run that is about to start its next Run step in \<open>w\<close>.
\<close>

fun runSteps ::
  "nat \<Rightarrow> 'w sys \<Rightarrow> jsstring \<Rightarrow> jsstring \<Rightarrow> 'w world \<Rightarrow> (error + unit) option \<times> 'w world" where
  "runSteps 0 sys filePath task w = (None, w)"
| "runSteps (Suc n) sys filePath task w =
     (case spawn sys (runCommand filePath) None w of
        (ExecOk out err, w1) \<Rightarrow> (Some (Inr ()), w1)
      | (ExecError stderr message, w1) \<Rightarrow>
          (case readFile sys filePath (env w1) of
             None \<Rightarrow> (Some (Inl FileSystemError), w1)
           | Some code \<Rightarrow>
               (case ask sys RunFileAndFixIfError
                       (fixPrompt code (diagnosticOf stderr message) task) w1 of
                  (Inl e, w2) \<Rightarrow> (Some (Inl e), w2)
                | (Inr fixedCodeRaw, w2) \<Rightarrow>
                    (case writeCodeToFile sys filePath (stripCodeFences fixedCodeRaw) w2 of
                       (Inl e, w3) \<Rightarrow> (Some (Inl e), w3)
                     | (Inr u, w3) \<Rightarrow> runSteps n sys filePath task w3))))"

section \<open>The plan executor\<close>

text \<open>The branch \<open>cd\<close>: the result is whether the \<open>try\<close> block ran to its end. The new
  directory is stored in the state before \<open>process.chdir\<close> is called.\<close>

definition changeDirectory ::
  "'w sys \<Rightarrow> jsstring \<Rightarrow> jsstring \<Rightarrow> ExecutionState \<Rightarrow> 'w world
     \<Rightarrow> bool \<times> ExecutionState \<times> 'w world" where
  "changeDirectory sys cmd targetDir state w =
     (let newPath = resolve (cwd sys (env w)) (currentDir state) targetDir in
      case (if existsSync sys newPath (env w) then (True, w)
            else onEnv (mkdir sys newPath) w) of
        (False, w1) \<Rightarrow> (False, state, w1)
      | (True, w1) \<Rightarrow>
          (let state1 = state\<lparr>currentDir := newPath\<rparr> in
           case onEnv (chdir sys newPath) w1 of
             (False, w2) \<Rightarrow> (False, state1, w2)
           | (True, w2) \<Rightarrow>
               (True, state1\<lparr>executedCommands := executedCommands state1 @ [cmd]\<rparr>, w2)))"

text \<open>The branch of a file creation: no \<open>try\<close>, so every error leaves \<open>executePlan\<close>.\<close>

definition fullPathOf :: "'w sys \<Rightarrow> ExecutionState \<Rightarrow> 'w world \<Rightarrow> jsstring \<Rightarrow> jsstring" where
  "fullPathOf sys state w filePath = resolve (cwd sys (env w)) (currentDir state) filePath"

definition createFile ::
  "'w sys \<Rightarrow> jsstring \<Rightarrow> jsstring \<Rightarrow> jsstring \<Rightarrow> ExecutionState \<Rightarrow> 'w world
     \<Rightarrow> ((error + ExecutionState) \<times> 'w world) option" where
  "createFile sys task cmd filePath state w =
     (let fullPath = fullPathOf sys state w filePath in
      case generateFileContent sys fullPath task w of
        (Inl e, w1) \<Rightarrow> Some (Inl e, w1)
      | (Inr code, w1) \<Rightarrow>
          (case writeCodeToFile sys fullPath code w1 of
             (Inl e, w2) \<Rightarrow> Some (Inl e, w2)
           | (Inr u, w2) \<Rightarrow>
               (case runFileAndFixIfError sys fullPath task w2 of
                  None \<Rightarrow> None
                | Some (Inl e, w3) \<Rightarrow> Some (Inl e, w3)
                | Some (Inr u', w3) \<Rightarrow>
                    Some (Inr (state\<lparr>executedCommands := executedCommands state @ [cmd]\<rparr>), w3))))"

text \<open>The fallback: the command itself, run in \<open>state.currentDir\<close>.\<close>

definition runShell ::
  "'w sys \<Rightarrow> jsstring \<Rightarrow> ExecutionState \<Rightarrow> 'w world \<Rightarrow> bool \<times> ExecutionState \<times> 'w world" where
  "runShell sys cmd state w =
     (case spawn sys cmd (Some (currentDir state)) w of
        (ExecOk out err, w1) \<Rightarrow>
          (True, state\<lparr>executedCommands := executedCommands state @ [cmd]\<rparr>, w1)
      | (ExecError stderr message, w1) \<Rightarrow> (False, state, w1))"

text \<open>The \<open>for\<close> loop of \<open>executePlan\<close>. \<open>Inl\<close> is an exception that leaves the function,
  \<open>Inr (success, newState)\<close> a return.\<close>

fun execCommands ::
  "'w sys \<Rightarrow> jsstring \<Rightarrow> jsstring list \<Rightarrow> ExecutionState \<Rightarrow> 'w world
     \<Rightarrow> ((error + bool \<times> ExecutionState) \<times> 'w world) option" where
  "execCommands sys task [] state w = Some (Inr (True, state), w)"
| "execCommands sys task (cmd # cmds) state w =
     (if cmd \<in> set (executedCommands state) then execCommands sys task cmds state w
      else case classify cmd of
        DirectoryChange targetDir \<Rightarrow>
          (case changeDirectory sys cmd targetDir state w of
             (False, state', w') \<Rightarrow> Some (Inr (False, state'), w')
           | (True, state', w') \<Rightarrow> execCommands sys task cmds state' w')
      | FileCreation filePath \<Rightarrow>
          (case createFile sys task cmd filePath state w of
             None \<Rightarrow> None
           | Some (Inl e, w') \<Rightarrow> Some (Inl e, w')
           | Some (Inr state', w') \<Rightarrow> execCommands sys task cmds state' w')
      | ShellCommand \<Rightarrow>
          (case runShell sys cmd state w of
             (False, state', w') \<Rightarrow> Some (Inr (False, state'), w')
           | (True, state', w') \<Rightarrow> execCommands sys task cmds state' w'))"

definition executePlan ::
  "'w sys \<Rightarrow> jsstring \<Rightarrow> ExecutionState \<Rightarrow> jsstring \<Rightarrow> 'w world
     \<Rightarrow> ((error + bool \<times> ExecutionState) \<times> 'w world) option" where
  "executePlan sys plan state task w = execCommands sys task (planCommands plan) state w"

section \<open>The session driver\<close>

definition planContext :: "ExecutionState \<Rightarrow> jsstring" where
  "planContext state =
     js ''\<newline>Current directory: '' @ currentDir state
     @ js ''\<newline>Project root: ''
     @ (case projectRoot state of None \<Rightarrow> js ''unknown''
        | Some r \<Rightarrow> if r = [] then js ''unknown'' else r)
     @ js ''\<newline>Executed commands:\<newline>'' @ joinWith (js ''\<newline>'') (executedCommands state)
     @ js ''\<newline>\<newline>Give the next set of bash commands only (no long-running dev servers).\<newline>Skip commands already run.\<newline>  ''"

definition getRefinedPlan ::
  "'w sys \<Rightarrow> jsstring \<Rightarrow> ExecutionState \<Rightarrow> 'w world \<Rightarrow> (error + jsstring) \<times> 'w world" where
  "getRefinedPlan sys task state w =
     (case ask sys GetRefinedPlan (planContext state @ js ''\<newline>\<newline>Task: '' @ task) w of
        (Inl e, w1) \<Rightarrow> (Inl e, w1)
      | (Inr text, w1) \<Rightarrow> (Inr (stripCodeFences text), w1))"

datatype outcome = Exited | AbortedByUser | AllDone | MaxAttemptsReached | FatalError error

text \<open>One pass through the body of the \<open>while\<close> loop of \<open>main\<close>: it ends the run, or it
  goes round again with the task extended by the feedback.\<close>

datatype 'w pass = Finished outcome "'w world" | Again jsstring ExecutionState "'w world"

definition attemptPass ::
  "'w sys \<Rightarrow> jsstring \<Rightarrow> ExecutionState \<Rightarrow> 'w world \<Rightarrow> 'w pass option" where
  "attemptPass sys task state w =
     (case getRefinedPlan sys task state w of
        (Inl e, w1) \<Rightarrow> Some (Finished (FatalError e) w1)
      | (Inr plan, w1) \<Rightarrow>
          (case onEnv (promptConfirm sys) w1 of
             (None, w2) \<Rightarrow> Some (Finished (FatalError PromptError) w2)
           | (Some False, w2) \<Rightarrow> Some (Finished AbortedByUser w2)
           | (Some True, w2) \<Rightarrow>
               (case executePlan sys plan state task w2 of
                  None \<Rightarrow> None
                | Some (Inl e, w3) \<Rightarrow> Some (Finished (FatalError e) w3)
                | Some (Inr (True, state'), w3) \<Rightarrow> Some (Finished AllDone w3)
                | Some (Inr (False, state'), w3) \<Rightarrow>
                    (case onEnv (promptInput sys AskFeedback) w3 of
                       (None, w4) \<Rightarrow> Some (Finished (FatalError PromptError) w4)
                     | (Some feedback, w4) \<Rightarrow>
                         Some (Again (task @ js ''\<newline>Error: '' @ feedback) state' w4)))))"

function mainLoop ::
  "'w sys \<Rightarrow> nat \<Rightarrow> jsstring \<Rightarrow> ExecutionState \<Rightarrow> 'w world \<Rightarrow> (outcome \<times> 'w world) option" where
  "mainLoop sys attempt task state w =
     (if attempt < 3 then
        (case attemptPass sys task state w of
           None \<Rightarrow> None
         | Some (Finished r w') \<Rightarrow> Some (r, w')
         | Some (Again task' state' w') \<Rightarrow> mainLoop sys (attempt + 1) task' state' w')
      else Some (MaxAttemptsReached, w))"
  by pat_completeness auto
termination
  by (relation "measure (\<lambda>(sys, attempt, task, state, w). 3 - attempt)") auto

definition main :: "'w sys \<Rightarrow> 'w world \<Rightarrow> (outcome \<times> 'w world) option" where
  "main sys w =
     (let state = \<lparr>currentDir = cwd sys (env w), executedCommands = [], projectRoot = None\<rparr> in
      case onEnv (promptInput sys AskTask) w of
        (None, w1) \<Rightarrow> Some (FatalError PromptError, w1)
      | (Some rawTask, w1) \<Rightarrow>
          if toLowerCase rawTask = js ''exit'' then Some (Exited, w1)
          else mainLoop sys 0 rawTask state w1)"

declare mainLoop.simps [simp del]

section \<open>Vocabulary of the properties\<close>

text \<open>The definitions of this section are not code of the repository: they name what the
  theorems say about it.\<close>

text \<open>What the Run and Repair steps of one artifact may leave in the list of calls.\<close>

definition runEvent :: "jsstring \<Rightarrow> event \<Rightarrow> bool" where
  "runEvent filePath ev =
     (case ev of
        Spawned c d \<Rightarrow> c = js ''node '' @ filePath \<and> d = None
      | Asked who p \<Rightarrow> who = RunFileAndFixIfError)"

text \<open>A file system that reads back what was last written to a path.\<close>

definition readsBackWrites :: "'w sys \<Rightarrow> bool" where
  "readsBackWrites sys \<longleftrightarrow>
     (\<forall>p c e e'. writeFile sys p c e = (True, e') \<longrightarrow> readFile sys p e' = Some c)"

text \<open>The history that results from completing the commands \<open>cmds\<close> in order: a command
  already in the history is passed over, any other is added at the end.\<close>

definition recordAll :: "jsstring list \<Rightarrow> jsstring list \<Rightarrow> jsstring list" where
  "recordAll history cmds = foldl (\<lambda>h c. if c \<in> set h then h else h @ [c]) history cmds"





text \<open>The calls to the planning service in a list of calls.\<close>

fun isPlanningCall :: "event \<Rightarrow> bool" where
  "isPlanningCall (Asked who prompt) = (who = GetRefinedPlan)"
| "isPlanningCall (Spawned cmd dir) = False"

definition planningCalls :: "event list \<Rightarrow> nat" where
  "planningCalls evs = length (filter isPlanningCall evs)"

text \<open>A failed attempt: the plan is obtained and confirmed, the executor returns
  \<open>success = false\<close>, and the operator supplies the feedback that extends the task.\<close>

definition failedAttempt ::
  "'w sys \<Rightarrow> jsstring \<Rightarrow> ExecutionState \<Rightarrow> 'w world
     \<Rightarrow> jsstring \<Rightarrow> ExecutionState \<Rightarrow> 'w world \<Rightarrow> bool" where
  "failedAttempt sys task state w task' state' w' \<longleftrightarrow>
     (\<exists>plan w1 w2 w3 feedback.
        getRefinedPlan sys task state w = (Inr plan, w1)
        \<and> onEnv (promptConfirm sys) w1 = (Some True, w2)
        \<and> executePlan sys plan state task w2 = Some (Inr (False, state'), w3)
        \<and> onEnv (promptInput sys AskFeedback) w3 = (Some feedback, w')
        \<and> task' = task @ js ''\<newline>Error: '' @ feedback)"

text \<open>The error that \<open>response.text!.trim()\<close> or the rejected call raises, if any.\<close>

fun failureOf :: "gen_result \<Rightarrow> error option" where
  "failureOf (GenText t) = None"
| "failureOf GenNoText = Some TypeError"
| "failureOf GenRejected = Some OracleError"

text \<open>
  A call to the generation service fails with \<open>e\<close> while the file \<open>fullPath\<close> is
  created from the world \<open>w\<close>, and leaves the world \<open>w'\<close>. It is the call for the content
  of the file, made by \<open>generateFileContent\<close>; or the content was generated and written,
  the run of the file is at a Run step after \<open>n\<close> repairs, this run fails, and it is
  the call for the repair, made by \<open>runFileAndFixIfError\<close>.
\<close>

definition generationFails ::
  "'w sys \<Rightarrow> jsstring \<Rightarrow> jsstring \<Rightarrow> 'w world \<Rightarrow> error \<Rightarrow> 'w world \<Rightarrow> bool" where
  "generationFails sys task fullPath w e w' \<longleftrightarrow>
     (\<exists>response e1.
        generateContent sys (generatePrompt fullPath task) (env w) = (response, e1)
        \<and> failureOf response = Some e
        \<and> w' = \<lparr>env = e1,
                  trace = trace w @ [Asked GenerateFileContent (generatePrompt fullPath task)]\<rparr>)
     \<or> (\<exists>code w1 w2 n wk stderr message ek failing response e1.
        generateFileContent sys fullPath task w = (Inr code, w1)
        \<and> writeCodeToFile sys fullPath code w1 = (Inr (), w2)
        \<and> runSteps n sys fullPath task w2 = (None, wk)
        \<and> execAsync sys (runCommand fullPath) None (env wk) = (ExecError stderr message, ek)
        \<and> readFile sys fullPath ek = Some failing
        \<and> generateContent sys (fixPrompt failing (diagnosticOf stderr message) task) ek
              = (response, e1)
        \<and> failureOf response = Some e
        \<and> w' = \<lparr>env = e1,
                  trace = trace wk @ [Spawned (runCommand fullPath) None,
                    Asked RunFileAndFixIfError
                      (fixPrompt failing (diagnosticOf stderr message) task)]\<rparr>)"

section \<open>A scripted environment\<close>

text \<open>
  An environment that answers from scripts: the results of the subprocesses, the
  responses of the generation service and the answers of the operator are lists consumed
  in order; files and directories are association lists. It instantiates the theorems
  below at concrete runs.
\<close>

record script =
  files :: "(jsstring \<times> jsstring) list"
  dirs :: "jsstring list"
  workingDir :: jsstring
  execResults :: "exec_result list"
  responses :: "gen_result list"
  answers :: "jsstring list"
  confirms :: "bool list"

definition scripted :: "script sys" where
  "scripted = \<lparr>
     execAsync = (\<lambda>cmd dir s. case execResults s of
                    [] \<Rightarrow> (ExecOk [] [], s)
                  | r # rs \<Rightarrow> (r, s\<lparr>execResults := rs\<rparr>)),
     generateContent = (\<lambda>prompt s. case responses s of
                    [] \<Rightarrow> (GenRejected, s)
                  | r # rs \<Rightarrow> (r, s\<lparr>responses := rs\<rparr>)),
     existsSync = (\<lambda>p s. p \<in> set (dirs s) \<or> p \<in> set (map fst (files s))),
     mkdir = (\<lambda>p s. (True, s\<lparr>dirs := p # dirs s\<rparr>)),
     writeFile = (\<lambda>p code s. (True, s\<lparr>files := (p, code) # files s\<rparr>)),
     readFile = (\<lambda>p s. map_of (files s) p),
     chdir = (\<lambda>p s. if p \<in> set (dirs s) then (True, s\<lparr>workingDir := p\<rparr>) else (False, s)),
     cwd = workingDir,
     promptInput = (\<lambda>q s. case answers s of
                    [] \<Rightarrow> (None, s)
                  | a # as \<Rightarrow> (Some a, s\<lparr>answers := as\<rparr>)),
     promptConfirm = (\<lambda>s. case confirms s of
                    [] \<Rightarrow> (None, s)
                  | b # bs \<Rightarrow> (Some b, s\<lparr>confirms := bs\<rparr>))
   \<rparr>"

definition start :: "script \<Rightarrow> script world" where
  "start s = \<lparr>env = s, trace = []\<rparr>"

definition homeScript :: script where
  "homeScript = \<lparr>files = [], dirs = [js ''/w''], workingDir = js ''/w'', execResults = [],
     responses = [], answers = [], confirms = []\<rparr>"

text \<open>A file with a slip in it, a first run that fails, a repaired version, a second
  run that succeeds; and the environment at the end of that run.\<close>

definition repairScript :: script where
  "repairScript = homeScript\<lparr>
     files := [(js ''/w/app.js'', js ''consle.log(1)'')],
     execResults := [ExecError (js ''ReferenceError: consle is not defined'') (js ''Command failed''),
                     ExecOk (js ''1'') []],
     responses := [GenText (js ''```js\<newline>console.log(1)\<newline>```'')]\<rparr>"

definition repairedScript :: script where
  "repairedScript = homeScript\<lparr>
     files := [(js ''/w/app.js'', js ''console.log(1)''), (js ''/w/app.js'', js ''consle.log(1)'')],
     dirs := [js ''/w'', js ''/w'']\<rparr>"

text \<open>A plan of three shell commands, of which one fails.\<close>

definition initialState :: ExecutionState where
  "initialState = \<lparr>currentDir = js ''/w'', executedCommands = [], projectRoot = None\<rparr>"

definition abortScript :: script where
  "abortScript = homeScript\<lparr>
     execResults := [ExecOk (js ''installed'') [],
                     ExecError (js ''1 test failed'') (js ''Command failed: npm test'')]\<rparr>"

definition threeCommands :: jsstring where
  "threeCommands = js ''npm install\<newline>npm test\<newline>npm publish''"

definition installedState :: ExecutionState where
  "installedState = initialState\<lparr>executedCommands := [js ''npm install'']\<rparr>"







text \<open>Three attempts, each with the plan \<open>npm test\<close>, which fails; feedback each time.\<close>

definition testsFail :: exec_result where
  "testsFail = ExecError (js ''1 test failed'') (js ''Command failed: npm test'')"

definition retryScript :: script where
  "retryScript = homeScript\<lparr>
     execResults := [testsFail, testsFail, testsFail],
     responses := [GenText (js ''npm test''), GenText (js ''npm test''), GenText (js ''npm test'')],
     answers := [js ''ship it'', js ''still red'', js ''still red'', js ''still red''],
     confirms := [True, True, True]\<rparr>"

text \<open>The script once the task was given, with \<open>n\<close> failing attempts to come.\<close>

definition retryScriptLeft :: "nat \<Rightarrow> script" where
  "retryScriptLeft n = homeScript\<lparr>
     execResults := replicate n testsFail,
     responses := replicate n (GenText (js ''npm test'')),
     answers := replicate n (js ''still red''),
     confirms := replicate n True\<rparr>"

text \<open>A plan that creates a file, and a generation service that rejects the call for
  its content; and the end of that run.\<close>

definition oracleFailScript :: script where
  "oracleFailScript = homeScript\<lparr>
     responses := [GenText (js ''touch app.js''), GenRejected, GenText (js ''touch app.js'')],
     answers := [js ''make an app'', js ''try again''],
     confirms := [True, True]\<rparr>"

definition oracleFailedWorld :: "script world" where
  "oracleFailedWorld = \<lparr>
     env = homeScript\<lparr>responses := [GenText (js ''touch app.js'')],
       answers := [js ''try again''], confirms := [True]\<rparr>,
     trace = [Asked GetRefinedPlan (planContext initialState @ js ''\<newline>\<newline>Task: '' @ js ''make an app''),
              Asked GenerateFileContent (generatePrompt (js ''/w/app.js'') (js ''make an app''))]\<rparr>"

text \<open>The end of the run of \<open>retryScript\<close>: three plans asked for, three times \<open>npm test\<close>.\<close>

definition retryFinalWorld :: "script world" where
  "retryFinalWorld = \<lparr>
     env = retryScriptLeft 0,
     trace =
       [Asked GetRefinedPlan (planContext initialState @ js ''\<newline>\<newline>Task: '' @ js ''ship it''),
        Spawned (js ''npm test'') (Some (js ''/w'')),
        Asked GetRefinedPlan (planContext initialState @ js ''\<newline>\<newline>Task: ''
          @ js ''ship it'' @ js ''\<newline>Error: '' @ js ''still red''),
        Spawned (js ''npm test'') (Some (js ''/w'')),
        Asked GetRefinedPlan (planContext initialState @ js ''\<newline>\<newline>Task: ''
          @ (js ''ship it'' @ js ''\<newline>Error: '' @ js ''still red'')
          @ js ''\<newline>Error: '' @ js ''still red''),
        Spawned (js ''npm test'') (Some (js ''/w''))]\<rparr>"

text \<open>A file that is generated and written, a first run that fails, and a generation
  service that rejects the call for the repair; and the end of that run.\<close>

definition repairFailScript :: script where
  "repairFailScript = homeScript\<lparr>
     execResults := [ExecError (js ''SyntaxError'') (js ''Command failed'')],
     responses := [GenText (js ''touch app.js''), GenText (js ''consle.log(1)''), GenRejected,
                   GenText (js ''touch app.js'')],
     answers := [js ''try again''],
     confirms := [True, True]\<rparr>"

definition repairFailedWorld :: "script world" where
  "repairFailedWorld = \<lparr>
     env = homeScript\<lparr>
       files := [(js ''/w/app.js'', js ''consle.log(1)'')],
       dirs := [js ''/w'', js ''/w''],
       responses := [GenText (js ''touch app.js'')],
       answers := [js ''try again''], confirms := [True]\<rparr>,
     trace = [Asked GetRefinedPlan (planContext initialState @ js ''\<newline>\<newline>Task: '' @ js ''make an app''),
              Asked GenerateFileContent (generatePrompt (js ''/w/app.js'') (js ''make an app'')),
              Spawned (js ''node /w/app.js'') None,
              Asked RunFileAndFixIfError
                (fixPrompt (js ''consle.log(1)'') (js ''SyntaxError'') (js ''make an app''))]\<rparr>"

section \<open>Unfolding the definitions\<close>

lemmas env_defs = scripted_def start_def homeScript_def spawn_def ask_def onEnv_def
lemmas path_defs = slash_def isAbsolute_def withSlash_def resolve_def dirname_def

section \<open>Properties of the string functions\<close>

lemmas string_defs = js_def trim_def startsWith_def endsWith_def isWhiteSpace_def
  isAsciiLetter_def fence_def toLowerCase_def

lemmas strip_defs = stripLeadingFence_def stripTrailingFence_def stripCodeFences_def

lemmas classify_defs = fileExtensions_def isFileCreationCommand_def isLongRunningCommand_def
  isSkipped_def planCommands_def classify_def

lemma dropWhile_trimmed:
  assumes "u = rev (dropWhile P (rev (dropWhile P s)))"
  shows "dropWhile P u = u"
proof (cases u)
  case Nil
  then show ?thesis by simp
next
  case (Cons a v)
  let ?t = "dropWhile P s"
  have "\<exists>zs. ?t = u @ zs"
    unfolding assms by (metis rev_append rev_rev_ident takeWhile_dropWhile_id)
  then obtain zs where zs: "?t = (a # v) @ zs" using Cons by auto
  then have "hd ?t = a" by (metis append_Cons list.sel(1))
  moreover have "?t \<noteq> []" using zs by auto
  ultimately have "\<not> P a" using hd_dropWhile by metis
  then show ?thesis using Cons by simp
qed

lemma dropWhile_rev_dropWhile:
  "dropWhile P (rev (dropWhile P (rev (dropWhile P s)))) = rev (dropWhile P (rev (dropWhile P s)))"
  by (rule dropWhile_trimmed) simp

lemma trim_idem: "trim (trim s) = trim s"
  unfolding trim_def by (simp add: dropWhile_rev_dropWhile)

lemma length_trim_le: "length (trim s) \<le> length s"
  unfolding trim_def
  by (metis length_dropWhile_le length_rev order_trans)

lemma trim_stripCodeFences: "trim (stripCodeFences x) = stripCodeFences x"
  by (simp add: stripCodeFences_def trim_idem)

lemma length_fence: "length fence = 3"
  by (simp add: fence_def js_def)

lemma length_stripLeadingFence_le: "length (stripLeadingFence y) \<le> length y"
proof (cases "startsWith y fence")
  case True
  have "length (dropWhile isAsciiLetter (drop 3 y)) \<le> length y"
    by (metis diff_le_self length_drop length_dropWhile_le order_trans)
  then show ?thesis using True
    by (auto simp: stripLeadingFence_def split: list.splits)
next
  case False then show ?thesis by (simp add: stripLeadingFence_def)
qed

lemma length_stripLeadingFence_less:
  assumes "startsWith y fence"
  shows "length (stripLeadingFence y) < length y"
proof -
  have "length (take 3 y) = 3" using assms by (metis length_fence startsWith_def)
  then have ly: "3 \<le> length y" by simp
  have "length (dropWhile isAsciiLetter (drop 3 y)) \<le> length y - 3"
    by (metis length_drop length_dropWhile_le)
  then show ?thesis using assms ly
    by (auto simp: stripLeadingFence_def split: list.splits)
qed

lemma length_stripTrailingFence_le: "length (stripTrailingFence y) \<le> length y"
  by (simp add: stripTrailingFence_def)

lemma length_stripTrailingFence_less:
  "endsWith y fence \<Longrightarrow> length (stripTrailingFence y) < length y"
  by (auto simp: stripTrailingFence_def endsWith_def length_fence)

section \<open>The classifier table (C1)\<close>

text \<open>
  C1, as stated, fails on its last row: \<open>node index.js\<close> ends in \<open>.js\<close>, so the
  file-creation test accepts it and the line is not run as a shell command.
\<close>

theorem node_index_js_not_shell:
  "classify (js ''node index.js'') \<noteq> ShellCommand"
  by (simp add: string_defs classify_defs)

text \<open>
  C1, amended: \<open>cd src\<close> is a directory change to \<open>src\<close>; \<open>touch app.py\<close> is a file
  creation of \<open>app.py\<close>; \<open>npm run dev\<close> is long-running and \<open># comment\<close> is skipped,
  and neither becomes a command of the plan; \<open>node index.js\<close> is a file creation of
  \<open>index.js\<close>; a line that passes none of the tests, such as \<open>npm install\<close>, is a
  shell command, and the command spawned is the line itself, in the current directory.
\<close>

theorem classifier_table:
  "planCommands (js ''cd src'') = [js ''cd src'']
   \<and> classify (js ''cd src'') = DirectoryChange (js ''src'')
   \<and> planCommands (js ''touch app.py'') = [js ''touch app.py'']
   \<and> classify (js ''touch app.py'') = FileCreation (js ''app.py'')
   \<and> isLongRunningCommand (js ''npm run dev'')
   \<and> planCommands (js ''npm run dev'') = []
   \<and> isSkipped (js ''# comment'')
   \<and> planCommands (js ''# comment'') = []
   \<and> planCommands (js ''node index.js'') = [js ''node index.js'']
   \<and> classify (js ''node index.js'') = FileCreation (js ''index.js'')
   \<and> planCommands (js ''npm install'') = [js ''npm install'']
   \<and> classify (js ''npm install'') = ShellCommand
   \<and> runShell scripted (js ''npm install'') initialState (start homeScript)
       = (True, initialState\<lparr>executedCommands := [js ''npm install'']\<rparr>,
          \<lparr>env = homeScript, trace = [Spawned (js ''npm install'') (Some (js ''/w''))]\<rparr>)"
proof -
  have "runShell scripted (js ''npm install'') initialState (start homeScript)
       = (True, initialState\<lparr>executedCommands := [js ''npm install'']\<rparr>,
          \<lparr>env = homeScript, trace = [Spawned (js ''npm install'') (Some (js ''/w''))]\<rparr>)"
    by (simp add: runShell_def env_defs initialState_def)
  then show ?thesis
    by (simp add: string_defs classify_defs)
qed

section \<open>Fence stripping (C2)\<close>

text \<open>
  C2, as stated, fails: an answer that opens with two fences, the second one followed by
  text, is stripped of the first fence only, and a second pass strips more.
\<close>

theorem stripCodeFences_not_idempotent:
  "stripCodeFences (stripCodeFences (js ''```\<newline>```a'')) \<noteq> stripCodeFences (js ''```\<newline>```a'')"
  by (simp add: string_defs strip_defs)

text \<open>
  C2, amended: the stripped text is a fixed point of \<open>stripCodeFences\<close> exactly when it
  neither starts nor ends with three backticks; in particular a second pass changes
  nothing on such a text.
\<close>

theorem stripCodeFences_fixed_iff:
  "stripCodeFences (stripCodeFences x) = stripCodeFences x \<longleftrightarrow>
     \<not> startsWith (stripCodeFences x) fence \<and> \<not> endsWith (stripCodeFences x) fence"
proof -
  let ?y = "stripCodeFences x"
  have ty: "trim ?y = ?y" by (rule trim_stripCodeFences)
  show ?thesis
  proof (cases "startsWith ?y fence")
    case True
    have "length (stripCodeFences ?y) \<le> length (stripLeadingFence ?y)"
      unfolding stripCodeFences_def[of ?y]
      by (meson length_trim_le length_stripTrailingFence_le order_trans)
    also have "\<dots> < length ?y" by (rule length_stripLeadingFence_less[OF True])
    finally have "stripCodeFences ?y \<noteq> ?y" by auto
    then show ?thesis using True by simp
  next
    case nf: False
    then have l: "stripLeadingFence ?y = ?y" by (simp add: stripLeadingFence_def)
    show ?thesis
    proof (cases "endsWith ?y fence")
      case True
      have "length (stripCodeFences ?y) \<le> length (stripTrailingFence ?y)"
        unfolding stripCodeFences_def[of ?y] l by (rule length_trim_le)
      also have "\<dots> < length ?y" by (rule length_stripTrailingFence_less[OF True])
      finally have "stripCodeFences ?y \<noteq> ?y" by auto
      then show ?thesis using True by simp
    next
      case False
      then have "stripTrailingFence ?y = ?y" by (simp add: stripTrailingFence_def)
      then have "stripCodeFences ?y = ?y"
        unfolding stripCodeFences_def[of ?y] l using ty by simp
      then show ?thesis using nf False by simp
    qed
  qed
qed

theorem stripCodeFences_fixed_iff_witness:
  "stripCodeFences (stripCodeFences (js ''```js\<newline>let x = 1;\<newline>```''))
     = stripCodeFences (js ''```js\<newline>let x = 1;\<newline>```'')
   \<and> \<not> startsWith (stripCodeFences (js ''```js\<newline>let x = 1;\<newline>```'')) fence
   \<and> \<not> endsWith (stripCodeFences (js ''```js\<newline>let x = 1;\<newline>```'')) fence"
proof -
  have v: "stripCodeFences (js ''```js\<newline>let x = 1;\<newline>```'') = js ''let x = 1;''"
    by (simp add: string_defs strip_defs)
  have n: "\<not> startsWith (js ''let x = 1;'') fence \<and> \<not> endsWith (js ''let x = 1;'') fence"
    by (simp add: string_defs)
  show ?thesis
    using stripCodeFences_fixed_iff [of "js ''```js\<newline>let x = 1;\<newline>```''"] n
    unfolding v by blast
qed

section \<open>The list of calls grows at its end\<close>

lemma runEvent_simps:
  "runEvent filePath (Spawned c d) \<longleftrightarrow> c = runCommand filePath \<and> d = None"
  "runEvent filePath (Asked who p) \<longleftrightarrow> who = RunFileAndFixIfError"
  by (simp_all add: runEvent_def runCommand_def)

lemma spawn_trace: "spawn sys c d w = (r, w') \<Longrightarrow> trace w' = trace w @ [Spawned c d]"
  by (auto simp: spawn_def split: prod.splits)

lemma ask_trace: "ask sys who p w = (r, w') \<Longrightarrow> trace w' = trace w @ [Asked who p]"
  by (auto simp: ask_def split: prod.splits)

lemma onEnv_trace: "onEnv f w = (r, w') \<Longrightarrow> trace w' = trace w"
  by (auto simp: onEnv_def split: prod.splits)

lemma writeCodeToFile_trace: "writeCodeToFile sys p c w = (r, w') \<Longrightarrow> trace w' = trace w"
  by (auto simp: writeCodeToFile_def split: prod.splits bool.splits dest!: onEnv_trace)

lemmas runFileAndFixIfError_induct =
  runFileAndFixIfError.raw_induct [rotated -1, consumes 1, case_names step]

lemma runFileAndFixIfError_trace:
  assumes "runFileAndFixIfError sys filePath task w = Some y"
  shows "\<exists>evs. trace (snd y) = trace w @ Spawned (runCommand filePath) None # evs
           \<and> list_all (runEvent filePath) evs"
  using assms
proof (induction sys filePath task w y rule: runFileAndFixIfError_induct)
  case (step rec sys filePath task w y)
  note 1 = step
  obtain r w1 where sp: "spawn sys (runCommand filePath) None w = (r, w1)"
    by (cases "spawn sys (runCommand filePath) None w")
  have t1: "trace w1 = trace w @ [Spawned (runCommand filePath) None]"
    by (rule spawn_trace [OF sp])
  show ?case
  proof (cases r)
    case (ExecOk out err)
    with 1(2) sp have "y = (Inr (), w1)" by simp
    then show ?thesis using t1 by simp
  next
    case (ExecError stderr message)
    show ?thesis
    proof (cases "readFile sys filePath (env w1)")
      case None
      with 1(2) sp ExecError have "y = (Inl FileSystemError, w1)" by simp
      then show ?thesis using t1 by simp
    next
      case (Some code)
      let ?p = "fixPrompt code (diagnosticOf stderr message) task"
      obtain a w2 where as: "ask sys RunFileAndFixIfError ?p w1 = (a, w2)"
        by (cases "ask sys RunFileAndFixIfError ?p w1")
      have t2: "trace w2 = trace w1 @ [Asked RunFileAndFixIfError ?p]"
        by (rule ask_trace [OF as])
      show ?thesis
      proof (cases a)
        case (Inl e)
        with 1(2) sp ExecError Some as have "y = (Inl e, w2)" by simp
        then show ?thesis using t1 t2 by (simp add: runEvent_simps)
      next
        case (Inr raw)
        obtain b w3 where wr: "writeCodeToFile sys filePath (stripCodeFences raw) w2 = (b, w3)"
          by (cases "writeCodeToFile sys filePath (stripCodeFences raw) w2")
        have t3: "trace w3 = trace w2" by (rule writeCodeToFile_trace [OF wr])
        show ?thesis
        proof (cases b)
          case (Inl e)
          with 1(2) sp ExecError Some as Inr wr have "y = (Inl e, w3)" by simp
          then show ?thesis using t1 t2 t3 by (simp add: runEvent_simps)
        next
          case Inr2: (Inr u)
          with 1(2) sp ExecError Some as Inr wr
          have "rec sys filePath task w3 = Some y" by simp
          from 1(1) [OF this] obtain evs where
            "trace (snd y) = trace w3 @ Spawned (runCommand filePath) None # evs"
            "list_all (runEvent filePath) evs" by blast
          then show ?thesis using t1 t2 t3
            by (simp add: runEvent_simps)
        qed
      qed
    qed
  qed
qed

text \<open>One step of \<open>runFileAndFixIfError\<close>: the run succeeds, or the file is repaired and
  the function starts again.\<close>

lemma runFileAndFixIfError_ok:
  assumes "execAsync sys (runCommand filePath) None (env w) = (ExecOk out err, e1)"
  shows "runFileAndFixIfError sys filePath task w
           = Some (Inr (), \<lparr>env = e1, trace = trace w @ [Spawned (runCommand filePath) None]\<rparr>)"
  by (subst runFileAndFixIfError.simps) (simp add: spawn_def assms)

lemma runFileAndFixIfError_repair:
  assumes "execAsync sys (runCommand filePath) None (env w) = (ExecError stderr message, e1)"
      and "readFile sys filePath e1 = Some code"
      and "generateContent sys (fixPrompt code (diagnosticOf stderr message) task) e1
             = (GenText fixed, e2)"
      and "mkdir sys (dirname filePath) e2 = (True, e3)"
      and "writeFile sys filePath (stripCodeFences (trim fixed)) e3 = (True, e4)"
  shows "runFileAndFixIfError sys filePath task w
           = runFileAndFixIfError sys filePath task
               \<lparr>env = e4,
                trace = trace w @ [Spawned (runCommand filePath) None,
                  Asked RunFileAndFixIfError (fixPrompt code (diagnosticOf stderr message) task)]\<rparr>"
  by (subst runFileAndFixIfError.simps)
     (simp add: spawn_def ask_def writeCodeToFile_def onEnv_def assms)

section \<open>The cut-off run and the run\<close>


lemma runSteps_pending:
  "runSteps n sys filePath task w = (None, w') \<Longrightarrow>
     runFileAndFixIfError sys filePath task w = runFileAndFixIfError sys filePath task w'"
proof (induction n arbitrary: w)
  case 0
  then show ?case by simp
next
  case (Suc n)
  show ?case
    using Suc.prems Suc.IH
    by (subst runFileAndFixIfError.simps)
       (auto split: prod.splits exec_result.splits option.splits sum.splits)
qed



section \<open>What one command does to the history\<close>

lemma changeDirectory_history:
  assumes "changeDirectory sys cmd targetDir state w = (ok, state', w')"
  shows "executedCommands state'
           = (if ok then executedCommands state @ [cmd] else executedCommands state)"
  using assms
  by (auto simp: changeDirectory_def Let_def split: if_splits prod.splits bool.splits)

lemma runShell_history:
  assumes "runShell sys cmd state w = (ok, state', w')"
  shows "executedCommands state'
           = (if ok then executedCommands state @ [cmd] else executedCommands state)"
  using assms
  by (auto simp: runShell_def split: prod.splits exec_result.splits)

lemma createFile_history:
  assumes "createFile sys task cmd filePath state w = Some (Inr state', w')"
  shows "state' = state\<lparr>executedCommands := executedCommands state @ [cmd]\<rparr>"
  using assms
  by (auto simp: createFile_def Let_def split: prod.splits sum.splits option.splits)

lemma recordAll_Cons_old:
  "c \<in> set h \<Longrightarrow> recordAll h (c # cs) = recordAll h cs"
  by (simp add: recordAll_def)

lemma recordAll_Cons_new:
  "c \<notin> set h \<Longrightarrow> recordAll h (c # cs) = recordAll (h @ [c]) cs"
  by (simp add: recordAll_def)

lemma set_recordAll: "set (recordAll h cs) = set h \<union> set cs"
  unfolding recordAll_def
  by (induction cs arbitrary: h) auto

section \<open>The loop over the commands\<close>

lemma execCommands_success_history:
  assumes "execCommands sys task cmds state w = Some (Inr (True, state'), w')"
  shows "executedCommands state' = recordAll (executedCommands state) cmds"
  using assms
proof (induction cmds arbitrary: state w)
  case Nil
  then show ?case by (simp add: recordAll_def)
next
  case (Cons cmd cmds)
  show ?case
  proof (cases "cmd \<in> set (executedCommands state)")
    case True
    with Cons.prems have "execCommands sys task cmds state w = Some (Inr (True, state'), w')"
      by simp
    from Cons.IH [OF this] True show ?thesis by (simp add: recordAll_Cons_old)
  next
    case new: False
    show ?thesis
    proof (cases "classify cmd")
      case (DirectoryChange targetDir)
      obtain ok state1 w1 where cd: "changeDirectory sys cmd targetDir state w = (ok, state1, w1)"
        by (cases "changeDirectory sys cmd targetDir state w")
      with Cons.prems new DirectoryChange
      have ok and "execCommands sys task cmds state1 w1 = Some (Inr (True, state'), w')"
        by (cases ok; simp)+
      with Cons.IH [of state1 w1] changeDirectory_history [OF cd] new
      show ?thesis by (simp add: recordAll_Cons_new)
    next
      case (FileCreation filePath)
      with Cons.prems new obtain state1 w1 where
        cf: "createFile sys task cmd filePath state w = Some (Inr state1, w1)"
        and run: "execCommands sys task cmds state1 w1 = Some (Inr (True, state'), w')"
        by (auto split: option.splits sum.splits prod.splits)
      from Cons.IH [OF run] createFile_history [OF cf] new
      show ?thesis by (simp add: recordAll_Cons_new)
    next
      case ShellCommand
      obtain ok state1 w1 where sh: "runShell sys cmd state w = (ok, state1, w1)"
        by (cases "runShell sys cmd state w")
      with Cons.prems new ShellCommand
      have ok and "execCommands sys task cmds state1 w1 = Some (Inr (True, state'), w')"
        by (cases ok; simp)+
      with Cons.IH [of state1 w1] runShell_history [OF sh] new
      show ?thesis by (simp add: recordAll_Cons_new)
    qed
  qed
qed

lemma execCommands_abort:
  assumes "execCommands sys task cmds state w = Some (Inr (False, state'), w')"
  shows "\<exists>completed failing rest state1 w1.
           cmds = completed @ failing # rest
           \<and> execCommands sys task completed state w = Some (Inr (True, state1), w1)
           \<and> failing \<notin> set (executedCommands state1)
           \<and> execCommands sys task [failing] state1 w1 = Some (Inr (False, state'), w')
           \<and> executedCommands state' = executedCommands state1
           \<and> (\<forall>p. classify failing \<noteq> FileCreation p)"
  using assms
proof (induction cmds arbitrary: state w)
  case Nil
  then show ?case by simp
next
  case (Cons cmd cmds)
  let ?goal = "\<exists>completed failing rest state1 w1.
           cmd # cmds = completed @ failing # rest
           \<and> execCommands sys task completed state w = Some (Inr (True, state1), w1)
           \<and> failing \<notin> set (executedCommands state1)
           \<and> execCommands sys task [failing] state1 w1 = Some (Inr (False, state'), w')
           \<and> executedCommands state' = executedCommands state1
           \<and> (\<forall>p. classify failing \<noteq> FileCreation p)"
  have continue: ?goal
    if step: "\<And>cs. execCommands sys task (cmd # cs) state w = execCommands sys task cs state2 w2"
    for state2 w2
  proof -
    have "execCommands sys task cmds state2 w2 = Some (Inr (False, state'), w')"
      using Cons.prems step by simp
    from Cons.IH [OF this] obtain completed failing rest state1 w1 where
      c: "cmds = completed @ failing # rest"
      "execCommands sys task completed state2 w2 = Some (Inr (True, state1), w1)"
      "failing \<notin> set (executedCommands state1)"
      "execCommands sys task [failing] state1 w1 = Some (Inr (False, state'), w')"
      "executedCommands state' = executedCommands state1"
      "\<forall>p. classify failing \<noteq> FileCreation p" by blast
    have "cmd # cmds = (cmd # completed) @ failing # rest
           \<and> execCommands sys task (cmd # completed) state w = Some (Inr (True, state1), w1)
           \<and> failing \<notin> set (executedCommands state1)
           \<and> execCommands sys task [failing] state1 w1 = Some (Inr (False, state'), w')
           \<and> executedCommands state' = executedCommands state1
           \<and> (\<forall>p. classify failing \<noteq> FileCreation p)"
      using c step [of completed] by simp
    then show ?thesis by blast
  qed
  have stop: ?goal
    if "cmd \<notin> set (executedCommands state)"
      "execCommands sys task [cmd] state w = Some (Inr (False, state'), w')"
      "executedCommands state' = executedCommands state"
      "\<forall>p. classify cmd \<noteq> FileCreation p"
  proof -
    have "cmd # cmds = [] @ cmd # cmds
           \<and> execCommands sys task [] state w = Some (Inr (True, state), w)
           \<and> cmd \<notin> set (executedCommands state)
           \<and> execCommands sys task [cmd] state w = Some (Inr (False, state'), w')
           \<and> executedCommands state' = executedCommands state
           \<and> (\<forall>p. classify cmd \<noteq> FileCreation p)"
      using that by simp
    then show ?thesis by blast
  qed
  show ?case
  proof (cases "cmd \<in> set (executedCommands state)")
    case True
    then show ?thesis by (intro continue [of state w]) simp
  next
    case new: False
    show ?thesis
    proof (cases "classify cmd")
      case (DirectoryChange targetDir)
      obtain ok state1 w1 where cd: "changeDirectory sys cmd targetDir state w = (ok, state1, w1)"
        by (cases "changeDirectory sys cmd targetDir state w")
      note hist = changeDirectory_history [OF cd]
      show ?thesis
      proof (cases ok)
        case True
        with new DirectoryChange cd show ?thesis by (intro continue [of state1 w1]) simp
      next
        case False
        with Cons.prems new DirectoryChange cd have "state' = state1" "w' = w1" by simp_all
        then show ?thesis using hist False new DirectoryChange cd by (intro stop) simp_all
      qed
    next
      case (FileCreation filePath)
      with Cons.prems new obtain state1 w1 where
        cf: "createFile sys task cmd filePath state w = Some (Inr state1, w1)"
        by (auto split: option.splits sum.splits prod.splits)
      with new FileCreation show ?thesis by (intro continue [of state1 w1]) simp
    next
      case ShellCommand
      obtain ok state1 w1 where sh: "runShell sys cmd state w = (ok, state1, w1)"
        by (cases "runShell sys cmd state w")
      note hist = runShell_history [OF sh]
      show ?thesis
      proof (cases ok)
        case True
        with new ShellCommand sh show ?thesis by (intro continue [of state1 w1]) simp
      next
        case False
        with Cons.prems new ShellCommand sh have "state' = state1" "w' = w1" by simp_all
        then show ?thesis using hist False new ShellCommand sh by (intro stop) simp_all
      qed
    qed
  qed
qed

lemma planCommands_threeCommands:
  "planCommands threeCommands = [js ''npm install'', js ''npm test'', js ''npm publish'']"
  by (simp add: threeCommands_def string_defs classify_defs)

lemma classify_three:
  "classify (js ''npm install'') = ShellCommand"
  "classify (js ''npm test'') = ShellCommand"
  "classify (js ''npm publish'') = ShellCommand"
  by (simp_all add: string_defs classify_defs)

lemma distinct_recordAll: "distinct h \<Longrightarrow> distinct (recordAll h cs)"
  unfolding recordAll_def
  by (induction cs arbitrary: h) auto

lemma execCommands_history:
  assumes "execCommands sys task cmds state w = Some (Inr (ok, state'), w')"
  shows "\<exists>completed. set completed \<subseteq> set cmds
           \<and> executedCommands state' = recordAll (executedCommands state) completed"
proof (cases ok)
  case True
  with assms have "execCommands sys task cmds state w = Some (Inr (True, state'), w')"
    by simp
  from execCommands_success_history [OF this]
  have "set cmds \<subseteq> set cmds
     \<and> executedCommands state' = recordAll (executedCommands state) cmds" by simp
  then show ?thesis by (rule exI)
next
  case False
  with assms have "execCommands sys task cmds state w = Some (Inr (False, state'), w')"
    by simp
  from execCommands_abort [OF this]
  obtain completed failing rest state1 w1 where
    c: "cmds = completed @ failing # rest"
    "execCommands sys task completed state w = Some (Inr (True, state1), w1)"
    "executedCommands state' = executedCommands state1" by blast
  from execCommands_success_history [OF c(2)] c(1,3)
  have "set completed \<subseteq> set cmds
     \<and> executedCommands state' = recordAll (executedCommands state) completed" by auto
  then show ?thesis by (rule exI)
qed

lemma execCommands_skip:
  assumes "c \<in> set (executedCommands state)"
  shows "execCommands sys task cmds state w = execCommands sys task (removeAll c cmds) state w"
  using assms
proof (induction cmds arbitrary: state w)
  case Nil
  then show ?case by simp
next
  case (Cons cmd cmds)
  show ?case
  proof (cases "cmd = c")
    case True
    then show ?thesis using Cons.IH [OF Cons.prems] Cons.prems by simp
  next
    case other: False
    show ?thesis
    proof (cases "cmd \<in> set (executedCommands state)")
      case True
      then show ?thesis using Cons.IH [OF Cons.prems] other by simp
    next
      case new: False
      show ?thesis
      proof (cases "classify cmd")
        case (DirectoryChange targetDir)
        obtain ok state1 w1 where
          cd: "changeDirectory sys cmd targetDir state w = (ok, state1, w1)"
          by (cases "changeDirectory sys cmd targetDir state w")
        have "c \<in> set (executedCommands state1)"
          using changeDirectory_history [OF cd] Cons.prems by (simp split: if_splits)
        from Cons.IH [OF this] show ?thesis
          using other new DirectoryChange cd by (cases ok) simp_all
      next
        case (FileCreation filePath)
        show ?thesis
        proof (cases "createFile sys task cmd filePath state w")
          case None
          then show ?thesis using other new FileCreation by simp
        next
          case (Some res)
          obtain r w1 where res: "res = (r, w1)" by (cases res)
          show ?thesis
          proof (cases r)
            case (Inl e)
            then show ?thesis using other new FileCreation Some res by simp
          next
            case (Inr state1)
            have "c \<in> set (executedCommands state1)"
              using createFile_history [of sys task cmd filePath state w state1 w1]
                Some res Inr Cons.prems by simp
            from Cons.IH [OF this] show ?thesis
              using other new FileCreation Some res Inr by simp
          qed
        qed
      next
        case ShellCommand
        obtain ok state1 w1 where sh: "runShell sys cmd state w = (ok, state1, w1)"
          by (cases "runShell sys cmd state w")
        have "c \<in> set (executedCommands state1)"
          using runShell_history [OF sh] Cons.prems by (simp split: if_splits)
        from Cons.IH [OF this] show ?thesis
          using other new ShellCommand sh by (cases ok) simp_all
      qed
    qed
  qed
qed

lemma execCommands_append:
  assumes "execCommands sys task completed state w = Some (Inr (True, state1), w1)"
  shows "execCommands sys task (completed @ rest) state w = execCommands sys task rest state1 w1"
  using assms
proof (induction completed arbitrary: state w)
  case Nil
  then show ?case by simp
next
  case (Cons cmd cmds)
  show ?case
  proof (cases "cmd \<in> set (executedCommands state)")
    case True
    with Cons show ?thesis by simp
  next
    case new: False
    show ?thesis
    proof (cases "classify cmd")
      case (DirectoryChange targetDir)
      obtain ok state2 w2 where cd: "changeDirectory sys cmd targetDir state w = (ok, state2, w2)"
        by (cases "changeDirectory sys cmd targetDir state w")
      with Cons.prems new DirectoryChange
      have ok and "execCommands sys task cmds state2 w2 = Some (Inr (True, state1), w1)"
        by (cases ok; simp)+
      with Cons.IH [of state2 w2] new DirectoryChange cd show ?thesis by simp
    next
      case (FileCreation filePath)
      with Cons.prems new obtain state2 w2 where
        cf: "createFile sys task cmd filePath state w = Some (Inr state2, w2)"
        and run: "execCommands sys task cmds state2 w2 = Some (Inr (True, state1), w1)"
        by (auto split: option.splits sum.splits prod.splits)
      with Cons.IH [of state2 w2] new FileCreation show ?thesis by simp
    next
      case ShellCommand
      obtain ok state2 w2 where sh: "runShell sys cmd state w = (ok, state2, w2)"
        by (cases "runShell sys cmd state w")
      with Cons.prems new ShellCommand
      have ok and "execCommands sys task cmds state2 w2 = Some (Inr (True, state1), w1)"
        by (cases ok; simp)+
      with Cons.IH [of state2 w2] new ShellCommand sh show ?thesis by simp
    qed
  qed
qed

section \<open>Resolving a relative path against a normalised absolute one\<close>







section \<open>Planning calls\<close>

lemma planningCalls_append [simp]:
  "planningCalls (xs @ ys) = planningCalls xs + planningCalls ys"
  by (simp add: planningCalls_def)

lemma planningCalls_simps [simp]:
  "planningCalls [] = 0"
  "planningCalls (Spawned c d # evs) = planningCalls evs"
  "planningCalls (Asked who p # evs) = (if who = GetRefinedPlan then 1 else 0) + planningCalls evs"
  by (simp_all add: planningCalls_def)

lemma planningCalls_runEvents:
  "list_all (runEvent filePath) evs \<Longrightarrow> planningCalls evs = 0"
proof (induction evs)
  case Nil
  then show ?case by simp
next
  case (Cons ev evs)
  then show ?case by (cases ev) (simp_all add: runEvent_simps)
qed

lemma changeDirectory_trace:
  "changeDirectory sys cmd targetDir state w = (ok, state', w') \<Longrightarrow> trace w' = trace w"
  by (auto simp: changeDirectory_def Let_def split: if_splits prod.splits bool.splits
      dest!: onEnv_trace)

lemma runShell_trace:
  "runShell sys cmd state w = (ok, state', w') \<Longrightarrow>
     trace w' = trace w @ [Spawned cmd (Some (currentDir state))]"
  by (auto simp: runShell_def split: prod.splits exec_result.splits dest!: spawn_trace)

lemma generateFileContent_trace:
  "generateFileContent sys filePath task w = (r, w') \<Longrightarrow>
     trace w' = trace w @ [Asked GenerateFileContent (generatePrompt filePath task)]"
  by (auto simp: generateFileContent_def split: prod.splits sum.splits dest!: ask_trace)

lemma createFile_planningCalls:
  assumes "createFile sys task cmd filePath state w = Some (r, w')"
  shows "planningCalls (trace w') = planningCalls (trace w)"
proof -
  let ?full = "fullPathOf sys state w filePath"
  obtain g w1 where gen: "generateFileContent sys ?full task w = (g, w1)"
    by (cases "generateFileContent sys ?full task w")
  have t1: "planningCalls (trace w1) = planningCalls (trace w)"
    using generateFileContent_trace [OF gen] by simp
  show ?thesis
  proof (cases g)
    case (Inl e)
    with assms gen have "w' = w1" by (simp add: createFile_def Let_def)
    then show ?thesis using t1 by simp
  next
    case (Inr code)
    obtain wr w2 where wrt: "writeCodeToFile sys ?full code w1 = (wr, w2)"
      by (cases "writeCodeToFile sys ?full code w1")
    have t2: "trace w2 = trace w1" by (rule writeCodeToFile_trace [OF wrt])
    show ?thesis
    proof (cases wr)
      case (Inl e)
      with assms gen Inr wrt have "w' = w2" by (simp add: createFile_def Let_def)
      then show ?thesis using t1 t2 by simp
    next
      case Inr2: (Inr u)
      with assms gen Inr wrt obtain y where
        run: "runFileAndFixIfError sys ?full task w2 = Some y" and "snd y = w'"
        by (auto simp: createFile_def Let_def split: option.splits sum.splits prod.splits)
      from runFileAndFixIfError_trace [OF run] \<open>snd y = w'\<close> obtain evs where
        "trace w' = trace w2 @ Spawned (runCommand ?full) None # evs"
        "list_all (runEvent ?full) evs" by auto
      then show ?thesis using t1 t2 by (simp add: planningCalls_runEvents)
    qed
  qed
qed

lemma execCommands_planningCalls:
  assumes "execCommands sys task cmds state w = Some (r, w')"
  shows "planningCalls (trace w') = planningCalls (trace w)"
  using assms
proof (induction cmds arbitrary: state w)
  case Nil
  then show ?case by simp
next
  case (Cons cmd cmds)
  show ?case
  proof (cases "cmd \<in> set (executedCommands state)")
    case True
    with Cons show ?thesis by simp
  next
    case new: False
    show ?thesis
    proof (cases "classify cmd")
      case (DirectoryChange targetDir)
      obtain ok state1 w1 where cd: "changeDirectory sys cmd targetDir state w = (ok, state1, w1)"
        by (cases "changeDirectory sys cmd targetDir state w")
      from changeDirectory_trace [OF cd] have "planningCalls (trace w1) = planningCalls (trace w)"
        by simp
      with Cons.prems Cons.IH [of state1 w1] new DirectoryChange cd
      show ?thesis by (cases ok) auto
    next
      case (FileCreation filePath)
      show ?thesis
      proof (cases "createFile sys task cmd filePath state w")
        case None
        with Cons.prems new FileCreation show ?thesis by simp
      next
        case (Some res)
        obtain c w1 where res: "res = (c, w1)" by (cases res)
        from createFile_planningCalls [of sys task cmd filePath state w c w1] Some res
        have "planningCalls (trace w1) = planningCalls (trace w)" by simp
        with Cons.prems Cons.IH [of _ w1] new FileCreation Some res
        show ?thesis by (cases c) auto
      qed
    next
      case ShellCommand
      obtain ok state1 w1 where sh: "runShell sys cmd state w = (ok, state1, w1)"
        by (cases "runShell sys cmd state w")
      from runShell_trace [OF sh] have "planningCalls (trace w1) = planningCalls (trace w)"
        by simp
      with Cons.prems Cons.IH [of state1 w1] new ShellCommand sh
      show ?thesis by (cases ok) auto
    qed
  qed
qed

lemma getRefinedPlan_planningCalls:
  "getRefinedPlan sys task state w = (r, w') \<Longrightarrow>
     planningCalls (trace w') = planningCalls (trace w) + 1"
  by (auto simp: getRefinedPlan_def split: prod.splits sum.splits dest!: ask_trace)

lemma failedAttempt_planningCalls:
  assumes "failedAttempt sys task state w task' state' w'"
  shows "planningCalls (trace w') = planningCalls (trace w) + 1"
proof -
  from assms obtain plan w1 w2 w3 feedback where
    a: "getRefinedPlan sys task state w = (Inr plan, w1)"
    "onEnv (promptConfirm sys) w1 = (Some True, w2)"
    "executePlan sys plan state task w2 = Some (Inr (False, state'), w3)"
    "onEnv (promptInput sys AskFeedback) w3 = (Some feedback, w')"
    unfolding failedAttempt_def by blast
  from getRefinedPlan_planningCalls [OF a(1)] onEnv_trace [OF a(2)]
    execCommands_planningCalls [OF a(3) [unfolded executePlan_def]] onEnv_trace [OF a(4)]
  show ?thesis by simp
qed

lemma failedAttempt_attemptPass:
  "failedAttempt sys task state w task' state' w' \<longleftrightarrow>
     attemptPass sys task state w = Some (Again task' state' w')"
  unfolding failedAttempt_def attemptPass_def
  by (auto split: prod.splits sum.splits option.splits bool.splits)

text \<open>One failing attempt of the run of \<open>retryScript\<close>.\<close>

lemma plan_npm_test:
  "planCommands (stripCodeFences (trim (js ''npm test''))) = [js ''npm test'']"
  by (simp add: string_defs strip_defs classify_defs)

lemma retry_attempt:
  "failedAttempt scripted task initialState \<lparr>env = retryScriptLeft (Suc n), trace = tr\<rparr>
     (task @ js ''\<newline>Error: '' @ js ''still red'') initialState
     \<lparr>env = retryScriptLeft n,
      trace = tr @ [Asked GetRefinedPlan (planContext initialState @ js ''\<newline>\<newline>Task: '' @ task),
                    Spawned (js ''npm test'') (Some (js ''/w''))]\<rparr>"
proof -
  have cur: "currentDir initialState = js ''/w''" "executedCommands initialState = []"
    by (simp_all add: initialState_def)
  show ?thesis
    unfolding failedAttempt_attemptPass attemptPass_def getRefinedPlan_def executePlan_def
    by (simp add: ask_def onEnv_def spawn_def scripted_def retryScriptLeft_def plan_npm_test
          classify_three runShell_def cur testsFail_def homeScript_def)
qed

lemma retry_run:
  "main scripted (start retryScript) = Some (MaxAttemptsReached, retryFinalWorld)"
proof -
  let ?p = "\<lambda>task. Asked GetRefinedPlan (planContext initialState @ js ''\<newline>\<newline>Task: '' @ task)"
  let ?s = "Spawned (js ''npm test'') (Some (js ''/w''))"
  let ?t1 = "js ''ship it'' @ js ''\<newline>Error: '' @ js ''still red''"
  let ?t2 = "?t1 @ js ''\<newline>Error: '' @ js ''still red''"
  let ?t3 = "?t2 @ js ''\<newline>Error: '' @ js ''still red''"
  let ?w0 = "\<lparr>env = retryScriptLeft (Suc (Suc (Suc 0))), trace = []\<rparr>"
  let ?w1 = "\<lparr>env = retryScriptLeft (Suc (Suc 0)), trace = [?p (js ''ship it''), ?s]\<rparr>"
  let ?w2 = "\<lparr>env = retryScriptLeft (Suc 0), trace = [?p (js ''ship it''), ?s, ?p ?t1, ?s]\<rparr>"
  have task: "onEnv (promptInput scripted AskTask) (start retryScript) = (Some (js ''ship it''), ?w0)"
    by (simp add: env_defs retryScript_def retryScriptLeft_def)
  have noExit: "toLowerCase (js ''ship it'') \<noteq> js ''exit''"
    by (simp add: string_defs)
  have state0: "\<lparr>currentDir = cwd scripted (env (start retryScript)), executedCommands = [],
      projectRoot = None\<rparr> = initialState"
    by (simp add: env_defs retryScript_def initialState_def)
  have a1: "attemptPass scripted (js ''ship it'') initialState ?w0 = Some (Again ?t1 initialState ?w1)"
    using retry_attempt [of "js ''ship it''" "Suc (Suc 0)" "[]"]
    by (simp add: failedAttempt_attemptPass)
  have a2: "attemptPass scripted ?t1 initialState ?w1 = Some (Again ?t2 initialState ?w2)"
    using retry_attempt [of ?t1 "Suc 0" "[?p (js ''ship it''), ?s]"]
    by (simp add: failedAttempt_attemptPass)
  have a3: "attemptPass scripted ?t2 initialState ?w2 = Some (Again ?t3 initialState retryFinalWorld)"
    using retry_attempt [of ?t2 0 "[?p (js ''ship it''), ?s, ?p ?t1, ?s]"]
    by (simp add: failedAttempt_attemptPass retryFinalWorld_def)
  have l3: "mainLoop scripted 3 ?t3 initialState retryFinalWorld
      = Some (MaxAttemptsReached, retryFinalWorld)"
    by (subst mainLoop.simps) simp
  have l2: "mainLoop scripted 2 ?t2 initialState ?w2 = mainLoop scripted 3 ?t3 initialState retryFinalWorld"
    using a3 by (subst mainLoop.simps) simp
  have l1: "mainLoop scripted 1 ?t1 initialState ?w1 = mainLoop scripted 2 ?t2 initialState ?w2"
    using a2 by (subst mainLoop.simps) (simp add: numeral_2_eq_2)
  have l0: "mainLoop scripted 0 (js ''ship it'') initialState ?w0 = mainLoop scripted 1 ?t1 initialState ?w1"
    using a1 by (subst mainLoop.simps) simp
  show ?thesis
    unfolding main_def state0 using task noExit l0 l1 l2 l3 by simp
qed

section \<open>The Run step (C3)\<close>




section \<open>A failure of the generation service while a file is created (C4)\<close>

lemma ask_failure:
  "generateContent sys prompt (env w) = (response, e1) \<Longrightarrow> failureOf response = Some e \<Longrightarrow>
     ask sys who prompt w = (Inl e, \<lparr>env = e1, trace = trace w @ [Asked who prompt]\<rparr>)"
  by (cases response) (simp_all add: ask_def)

lemma runFileAndFixIfError_repair_fails:
  assumes "execAsync sys (runCommand filePath) None (env w) = (ExecError stderr message, e1)"
      and "readFile sys filePath e1 = Some code"
      and "generateContent sys (fixPrompt code (diagnosticOf stderr message) task) e1
             = (response, e2)"
      and "failureOf response = Some e"
  shows "runFileAndFixIfError sys filePath task w
           = Some (Inl e, \<lparr>env = e2,
               trace = trace w @ [Spawned (runCommand filePath) None,
                 Asked RunFileAndFixIfError (fixPrompt code (diagnosticOf stderr message) task)]\<rparr>)"
proof -
  let ?w1 = "\<lparr>env = e1, trace = trace w @ [Spawned (runCommand filePath) None]\<rparr>"
  have sp: "spawn sys (runCommand filePath) None w = (ExecError stderr message, ?w1)"
    using assms(1) by (simp add: spawn_def)
  have "ask sys RunFileAndFixIfError (fixPrompt code (diagnosticOf stderr message) task) ?w1
      = (Inl e, \<lparr>env = e2,
               trace = trace ?w1 @ [Asked RunFileAndFixIfError
                 (fixPrompt code (diagnosticOf stderr message) task)]\<rparr>)"
    using ask_failure [of sys _ ?w1, OF _ assms(4)] assms(3) by simp
  then show ?thesis
    using sp assms(2) by (subst runFileAndFixIfError.simps) simp
qed

lemma generationFails_createFile:
  assumes "generationFails sys task (fullPathOf sys state w filePath) w e w'"
  shows "createFile sys task cmd filePath state w = Some (Inl e, w')"
proof -
  let ?full = "fullPathOf sys state w filePath"
  from assms consider
    (content) response e1 where
      "generateContent sys (generatePrompt ?full task) (env w) = (response, e1)"
      "failureOf response = Some e"
      "w' = \<lparr>env = e1, trace = trace w @ [Asked GenerateFileContent (generatePrompt ?full task)]\<rparr>"
  | (repair) code w1 w2 n wk stderr message ek failing response e1 where
      "generateFileContent sys ?full task w = (Inr code, w1)"
      "writeCodeToFile sys ?full code w1 = (Inr (), w2)"
      "runSteps n sys ?full task w2 = (None, wk)"
      "execAsync sys (runCommand ?full) None (env wk) = (ExecError stderr message, ek)"
      "readFile sys ?full ek = Some failing"
      "generateContent sys (fixPrompt failing (diagnosticOf stderr message) task) ek
         = (response, e1)"
      "failureOf response = Some e"
      "w' = \<lparr>env = e1,
               trace = trace wk @ [Spawned (runCommand ?full) None,
                 Asked RunFileAndFixIfError
                   (fixPrompt failing (diagnosticOf stderr message) task)]\<rparr>"
    unfolding generationFails_def by blast
  then show ?thesis
  proof cases
    case content
    have "generateFileContent sys ?full task w = (Inl e, w')"
      using ask_failure [OF content(1,2), of GenerateFileContent] content(3)
      by (simp add: generateFileContent_def)
    then show ?thesis by (simp add: createFile_def Let_def)
  next
    case repair
    have "runFileAndFixIfError sys ?full task w2 = runFileAndFixIfError sys ?full task wk"
      by (rule runSteps_pending [OF repair(3)])
    also have "\<dots> = Some (Inl e, w')"
      using runFileAndFixIfError_repair_fails [OF repair(4,5,6,7)] repair(8) by simp
    finally show ?thesis
      using repair(1,2) by (simp add: createFile_def Let_def)
  qed
qed

lemma generationFails_repair:
  assumes "generateFileContent sys fullPath task w = (Inr code, w1)"
      and "writeCodeToFile sys fullPath code w1 = (Inr (), w2)"
      and "runSteps n sys fullPath task w2 = (None, wk)"
      and "execAsync sys (runCommand fullPath) None (env wk) = (ExecError stderr message, ek)"
      and "readFile sys fullPath ek = Some failing"
      and "generateContent sys (fixPrompt failing (diagnosticOf stderr message) task) ek
             = (response, e1)"
      and "failureOf response = Some e"
  shows "generationFails sys task fullPath w e
           \<lparr>env = e1,
            trace = trace wk @ [Spawned (runCommand fullPath) None,
              Asked RunFileAndFixIfError (fixPrompt failing (diagnosticOf stderr message) task)]\<rparr>"
  unfolding generationFails_def
  apply (rule disjI2)
  apply (rule exI [where x = code], rule exI [where x = w1], rule exI [where x = w2],
         rule exI [where x = n], rule exI [where x = wk], rule exI [where x = stderr],
         rule exI [where x = message], rule exI [where x = ek], rule exI [where x = failing],
         rule exI [where x = response], rule exI [where x = e1])
  apply (simp only: assms simp_thms)
  done

text \<open>
  C4, as stated, fails: the generation service rejects the call for a file; the run ends
  with a fatal error after its single planning call; the feedback of the operator and
  the next plan of the service, both ready in the script, are never asked for.
\<close>

theorem generation_failure_is_fatal:
  "main scripted (start oracleFailScript) = Some (FatalError OracleError, oracleFailedWorld)"
proof -
  let ?state = "\<lparr>currentDir = js ''/w'', executedCommands = [], projectRoot = None\<rparr>"
  let ?w0 = "\<lparr>env = oracleFailScript\<lparr>answers := [js ''try again'']\<rparr>, trace = []\<rparr>"
  have plan: "planCommands (stripCodeFences (trim (js ''touch app.js''))) = [js ''touch app.js'']"
    by (simp add: string_defs strip_defs classify_defs)
  have creation: "classify (js ''touch app.js'') = FileCreation (js ''app.js'')"
    by (simp add: string_defs classify_defs)
  have target: "resolve (js ''/w'') (js ''/w'') (js ''app.js'') = js ''/w/app.js''"
    by (simp add: path_defs js_def)
  have noExit: "toLowerCase (js ''make an app'') \<noteq> js ''exit''"
    by (simp add: string_defs)
  have task: "onEnv (promptInput scripted AskTask) (start oracleFailScript)
      = (Some (js ''make an app''), ?w0)"
    by (simp add: env_defs oracleFailScript_def)
  have dir: "cwd scripted (env (start oracleFailScript)) = js ''/w''"
    by (simp add: env_defs oracleFailScript_def)
  have pass: "attemptPass scripted (js ''make an app'') ?state ?w0
      = Some (Finished (FatalError OracleError) oracleFailedWorld)"
    unfolding attemptPass_def getRefinedPlan_def executePlan_def
    by (simp add: ask_def onEnv_def scripted_def oracleFailScript_def oracleFailedWorld_def
          homeScript_def initialState_def plan creation createFile_def generateFileContent_def
          fullPathOf_def target Let_def)
  have "main scripted (start oracleFailScript) = mainLoop scripted 0 (js ''make an app'') ?state ?w0"
    by (simp add: main_def task dir noExit)
  also have "\<dots> = Some (FatalError OracleError, oracleFailedWorld)"
    by (subst mainLoop.simps) (simp add: pass)
  finally show ?thesis .
qed

text \<open>
  C4, amended: when a call to the generation service rejects or returns no text while
  the executor handles a file creation, be it the call for the content of the file or a
  call for its repair, the error leaves \<open>executePlan\<close> as an exception: there is no
  result with \<open>success = false\<close>. The session driver does not catch it: the run ends
  there with a fatal error, whatever the number of attempts left, without asking for
  feedback and without another planning call.
\<close>

theorem generation_failure_ends_the_run:
  assumes attempt: "attempt < 3"
      and plan: "getRefinedPlan sys task state w = (Inr plan, w1)"
      and confirmed: "onEnv (promptConfirm sys) w1 = (Some True, w2)"
      and before: "planCommands plan = completed @ cmd # rest"
        "execCommands sys task completed state w2 = Some (Inr (True, state1), w3)"
      and creation: "cmd \<notin> set (executedCommands state1)" "classify cmd = FileCreation filePath"
      and failure: "generationFails sys task (fullPathOf sys state1 w3 filePath) w3 e w4"
  shows "executePlan sys plan state task w2 = Some (Inl e, w4)
         \<and> mainLoop sys attempt task state w = Some (FatalError e, w4)
         \<and> planningCalls (trace w4) = planningCalls (trace w) + 1"
proof -
  have cf: "createFile sys task cmd filePath state1 w3 = Some (Inl e, w4)"
    by (rule generationFails_createFile [OF failure])
  then have "execCommands sys task (cmd # rest) state1 w3 = Some (Inl e, w4)"
    using creation by simp
  then have ex: "executePlan sys plan state task w2 = Some (Inl e, w4)"
    using execCommands_append [OF before(2), of "cmd # rest"] before(1)
    by (simp add: executePlan_def)
  have "attemptPass sys task state w = Some (Finished (FatalError e) w4)"
    using plan confirmed ex by (simp add: attemptPass_def)
  then have loop: "mainLoop sys attempt task state w = Some (FatalError e, w4)"
    using attempt by (subst mainLoop.simps) simp
  have calls: "planningCalls (trace w4) = planningCalls (trace w) + 1"
    using getRefinedPlan_planningCalls [OF plan] onEnv_trace [OF confirmed]
      execCommands_planningCalls [OF before(2)] createFile_planningCalls [OF cf] by simp
  show ?thesis using ex loop calls by (intro conjI)
qed

theorem generation_failure_ends_the_run_witness:
  "mainLoop scripted 0 (js ''make an app'') initialState \<lparr>env = repairFailScript, trace = []\<rparr>
     = Some (FatalError OracleError, repairFailedWorld)"
proof -
  let ?task = "js ''make an app''"
  let ?p = "js ''/w/app.js''"
  let ?code = "js ''consle.log(1)''"
  let ?w = "\<lparr>env = repairFailScript, trace = []\<rparr>"
  let ?plan = "Asked GetRefinedPlan (planContext initialState @ js ''\<newline>\<newline>Task: '' @ ?task)"
  let ?e1 = "repairFailScript\<lparr>responses := [GenText ?code, GenRejected, GenText (js ''touch app.js'')]\<rparr>"
  let ?w1 = "\<lparr>env = ?e1, trace = [?plan]\<rparr>"
  let ?e2 = "?e1\<lparr>confirms := [True]\<rparr>"
  let ?w2 = "\<lparr>env = ?e2, trace = [?plan]\<rparr>"
  let ?e3 = "?e2\<lparr>responses := [GenRejected, GenText (js ''touch app.js'')]\<rparr>"
  let ?w3 = "\<lparr>env = ?e3, trace = [?plan, Asked GenerateFileContent (generatePrompt ?p ?task)]\<rparr>"
  let ?e4 = "?e3\<lparr>dirs := [js ''/w'', js ''/w''], files := [(?p, ?code)]\<rparr>"
  let ?w4 = "\<lparr>env = ?e4, trace = [?plan, Asked GenerateFileContent (generatePrompt ?p ?task)]\<rparr>"
  let ?e5 = "?e4\<lparr>execResults := []\<rparr>"
  let ?e6 = "?e5\<lparr>responses := [GenText (js ''touch app.js'')]\<rparr>"
  have p: "getRefinedPlan scripted ?task initialState ?w
      = (Inr (stripCodeFences (trim (js ''touch app.js''))), ?w1)"
    by (simp add: getRefinedPlan_def ask_def scripted_def repairFailScript_def)
  have c: "onEnv (promptConfirm scripted) ?w1 = (Some True, ?w2)"
    by (simp add: onEnv_def scripted_def repairFailScript_def)
  have cmds: "planCommands (stripCodeFences (trim (js ''touch app.js''))) = [] @ js ''touch app.js'' # []"
    by (simp add: string_defs strip_defs classify_defs)
  have none: "execCommands scripted ?task [] initialState ?w2 = Some (Inr (True, initialState), ?w2)"
    by simp
  have new: "js ''touch app.js'' \<notin> set (executedCommands initialState)"
    by (simp add: initialState_def)
  have creation: "classify (js ''touch app.js'') = FileCreation (js ''app.js'')"
    by (simp add: string_defs classify_defs)
  have target: "fullPathOf scripted initialState ?w2 (js ''app.js'') = ?p"
    by (simp add: fullPathOf_def path_defs scripted_def repairFailScript_def homeScript_def
          initialState_def js_def)
  have strip: "stripCodeFences (trim ?code) = ?code"
    by (simp add: string_defs strip_defs)
  have dn: "dirname ?p = js ''/w''"
    by (simp add: path_defs js_def)
  have g: "generateFileContent scripted ?p ?task ?w2 = (Inr ?code, ?w3)"
    by (simp add: generateFileContent_def ask_def scripted_def repairFailScript_def strip)
  have wr: "writeCodeToFile scripted ?p ?code ?w3 = (Inr (), ?w4)"
    by (simp add: writeCodeToFile_def onEnv_def scripted_def repairFailScript_def
          homeScript_def dn)
  have rs: "runSteps 0 scripted ?p ?task ?w4 = (None, ?w4)"
    by simp
  have ex: "execAsync scripted (runCommand ?p) None (env ?w4)
      = (ExecError (js ''SyntaxError'') (js ''Command failed''), ?e5)"
    by (simp add: scripted_def repairFailScript_def)
  have rd: "readFile scripted ?p ?e5 = Some ?code"
    by (simp add: scripted_def)
  have gen: "generateContent scripted
      (fixPrompt ?code (diagnosticOf (js ''SyntaxError'') (js ''Command failed'')) ?task) ?e5
      = (GenRejected, ?e6)"
    by (simp add: scripted_def repairFailScript_def)
  have f: "failureOf GenRejected = Some OracleError" by simp
  have final: "\<lparr>env = ?e6,
       trace = trace ?w4 @ [Spawned (runCommand ?p) None,
         Asked RunFileAndFixIfError
           (fixPrompt ?code (diagnosticOf (js ''SyntaxError'') (js ''Command failed'')) ?task)]\<rparr>
      = repairFailedWorld"
    by (simp add: repairFailedWorld_def repairFailScript_def homeScript_def runCommand_def
          diagnosticOf_def js_def)
  have fails: "generationFails scripted ?task (fullPathOf scripted initialState ?w2 (js ''app.js''))
      ?w2 OracleError repairFailedWorld"
    unfolding target using generationFails_repair [OF g wr rs ex rd gen f]
    by (simp only: final)
  have lt: "(0::nat) < 3" by simp
  show ?thesis
    by (rule conjunct1 [OF conjunct2
          [OF generation_failure_ends_the_run [OF lt p c cmds none new creation fails]]])
qed

section \<open>A recorded command is skipped (C5)\<close>

text \<open>
  C5, as stated, fails in its last clause: in the run of \<open>retryScript\<close> the command
  \<open>npm test\<close> fails, is not recorded, and is spawned again by each of the two later
  plans that list it: three executions of one literal command string in one run.
\<close>

theorem failed_command_runs_again:
  "main scripted (start retryScript) = Some (MaxAttemptsReached, retryFinalWorld)
   \<and> count_list (trace retryFinalWorld) (Spawned (js ''npm test'') (Some (js ''/w''))) = 3"
proof -
  have "count_list (trace retryFinalWorld) (Spawned (js ''npm test'') (Some (js ''/w''))) = 3"
    by (simp add: retryFinalWorld_def)
  with retry_run show ?thesis by (rule conjI)
qed

text \<open>
  C5, amended: when the command \<open>c\<close> is in \<open>executedCommands\<close>, executing a plan is
  executing the plan without its lines \<open>c\<close>: the result, the environment and the list of
  subprocesses and calls to the generation service are the same, so nothing is spawned
  or asked for \<open>c\<close>. Whatever \<open>executePlan\<close> returns, \<open>c\<close> is still in the history, so
  that later plans of the run skip it as well, and a history without duplicates stays
  so: no command string is recorded twice. This is at most one recorded execution per
  command string; a command that failed is not recorded, and nothing is said of it.
\<close>

theorem recorded_command_is_skipped:
  assumes "c \<in> set (executedCommands state)"
  shows "executePlan sys plan state task w
           = execCommands sys task (removeAll c (planCommands plan)) state w
         \<and> (\<forall>ok state' w'.
               executePlan sys plan state task w = Some (Inr (ok, state'), w') \<longrightarrow>
               c \<in> set (executedCommands state')
               \<and> (distinct (executedCommands state) \<longrightarrow> distinct (executedCommands state')))"
proof -
  have "c \<in> set (executedCommands state')
        \<and> (distinct (executedCommands state) \<longrightarrow> distinct (executedCommands state'))"
    if "executePlan sys plan state task w = Some (Inr (ok, state'), w')" for ok state' w'
  proof -
    from execCommands_history [OF that [unfolded executePlan_def]] obtain completed where
      "executedCommands state' = recordAll (executedCommands state) completed" by blast
    then show ?thesis using assms by (simp add: set_recordAll distinct_recordAll)
  qed
  then have "\<forall>ok state' w'.
               executePlan sys plan state task w = Some (Inr (ok, state'), w') \<longrightarrow>
               c \<in> set (executedCommands state')
               \<and> (distinct (executedCommands state) \<longrightarrow> distinct (executedCommands state'))"
    by (intro allI impI)
  moreover have "executePlan sys plan state task w
           = execCommands sys task (removeAll c (planCommands plan)) state w"
    unfolding executePlan_def by (rule execCommands_skip [OF assms])
  ultimately show ?thesis by (intro conjI)
qed

theorem recorded_command_is_skipped_witness:
  "executePlan scripted threeCommands installedState (js ''release'') (start abortScript)
     = execCommands scripted (js ''release'') [js ''npm test'', js ''npm publish'']
         installedState (start abortScript)
   \<and> execCommands scripted (js ''release'') [js ''npm test'', js ''npm publish'']
         installedState (start abortScript)
     = Some (Inr (False, installedState\<lparr>executedCommands := [js ''npm install'', js ''npm test'']\<rparr>),
        \<lparr>env = homeScript,
         trace = [Spawned (js ''npm test'') (Some (js ''/w'')),
                  Spawned (js ''npm publish'') (Some (js ''/w''))]\<rparr>)
   \<and> js ''npm install'' \<in> set [js ''npm install'', js ''npm test'']
   \<and> distinct [js ''npm install'', js ''npm test'']"
proof -
  have ne: "js ''npm test'' \<noteq> js ''npm install''" "js ''npm publish'' \<noteq> js ''npm install''"
    "js ''npm publish'' \<noteq> js ''npm test''"
    by (simp_all add: js_def)
  have rec: "js ''npm install'' \<in> set (executedCommands installedState)"
    by (simp add: installedState_def)
  have rm: "removeAll (js ''npm install'') (planCommands threeCommands)
      = [js ''npm test'', js ''npm publish'']"
    using ne by (simp add: planCommands_threeCommands)
  have run: "execCommands scripted (js ''release'') [js ''npm test'', js ''npm publish'']
         installedState (start abortScript)
     = Some (Inr (False, installedState\<lparr>executedCommands := [js ''npm install'', js ''npm test'']\<rparr>),
        \<lparr>env = homeScript,
         trace = [Spawned (js ''npm test'') (Some (js ''/w'')),
                  Spawned (js ''npm publish'') (Some (js ''/w''))]\<rparr>)"
    by (simp add: classify_three runShell_def env_defs abortScript_def initialState_def
          installedState_def ne)
  have d: "distinct (executedCommands installedState)"
    by (simp add: installedState_def)
  let ?final = "installedState\<lparr>executedCommands := [js ''npm install'', js ''npm test'']\<rparr>"
  note inst = recorded_command_is_skipped [OF rec, of scripted threeCommands "js ''release''"
        "start abortScript"]
  have same:
    "executePlan scripted threeCommands installedState (js ''release'') (start abortScript)
     = execCommands scripted (js ''release'') [js ''npm test'', js ''npm publish'']
         installedState (start abortScript)"
    using conjunct1 [OF inst] by (simp only: rm)
  have returned:
    "executePlan scripted threeCommands installedState (js ''release'') (start abortScript)
     = Some (Inr (False, ?final),
        \<lparr>env = homeScript,
         trace = [Spawned (js ''npm test'') (Some (js ''/w'')),
                  Spawned (js ''npm publish'') (Some (js ''/w''))]\<rparr>)"
    using same run by (rule trans)
  from conjunct2 [OF inst, rule_format, OF returned] d
  have "js ''npm install'' \<in> set (executedCommands ?final)
        \<and> distinct (executedCommands ?final)"
    by (simp only: simp_thms)
  then have "js ''npm install'' \<in> set [js ''npm install'', js ''npm test'']
        \<and> distinct [js ''npm install'', js ''npm test'']"
    by simp
  with same run show ?thesis by (simp only: simp_thms)
qed

section \<open>Sequential abort (C6)\<close>

text \<open>
  C6: a plan of three commands, the first two of them shell commands not yet in the
  history; the first succeeds and the second fails. Then \<open>executePlan\<close> returns
  \<open>success = false\<close>, the history has gained the first command and nothing else (from an
  empty history it is the first command alone), and the two subprocesses of the first
  and second command are the only calls made: the third command is not run.
\<close>

theorem second_failure_stops_plan:
  assumes three: "planCommands plan = [c1, c2, c3]"
      and shell: "classify c1 = ShellCommand" "classify c2 = ShellCommand"
      and fresh: "c1 \<notin> set (executedCommands state)" "c2 \<notin> set (executedCommands state)"
        "c1 \<noteq> c2"
      and firstSucceeds:
        "execAsync sys c1 (Some (currentDir state)) (env w) = (ExecOk out err, e1)"
      and secondFails:
        "execAsync sys c2 (Some (currentDir state)) e1 = (ExecError stderr message, e2)"
  shows "executePlan sys plan state task w
           = Some (Inr (False, state\<lparr>executedCommands := executedCommands state @ [c1]\<rparr>),
                   \<lparr>env = e2,
                    trace = trace w @ [Spawned c1 (Some (currentDir state)),
                                       Spawned c2 (Some (currentDir state))]\<rparr>)"
  using assms by (simp add: executePlan_def runShell_def spawn_def)

theorem second_failure_stops_plan_witness:
  "executePlan scripted threeCommands initialState (js ''release'') (start abortScript)
     = Some (Inr (False, initialState\<lparr>executedCommands := [js ''npm install'']\<rparr>),
             \<lparr>env = homeScript,
              trace = [Spawned (js ''npm install'') (Some (js ''/w'')),
                       Spawned (js ''npm test'') (Some (js ''/w''))]\<rparr>)"
proof -
  have fresh: "js ''npm install'' \<notin> set (executedCommands initialState)"
    "js ''npm test'' \<notin> set (executedCommands initialState)"
    "js ''npm install'' \<noteq> js ''npm test''"
    by (simp_all add: initialState_def js_def)
  have r1: "execAsync scripted (js ''npm install'') (Some (currentDir initialState))
      (env (start abortScript))
      = (ExecOk (js ''installed'') [],
         homeScript\<lparr>execResults := [ExecError (js ''1 test failed'') (js ''Command failed: npm test'')]\<rparr>)"
    by (simp add: env_defs abortScript_def)
  have r2: "execAsync scripted (js ''npm test'') (Some (currentDir initialState))
      (homeScript\<lparr>execResults := [ExecError (js ''1 test failed'') (js ''Command failed: npm test'')]\<rparr>)
      = (ExecError (js ''1 test failed'') (js ''Command failed: npm test''), homeScript)"
    by (simp add: env_defs)
  show ?thesis
    using second_failure_stops_plan [OF planCommands_threeCommands classify_three(1,2) fresh r1 r2,
        of "js ''release''"]
    by (simp add: initialState_def start_def)
qed

section \<open>One repair (C7)\<close>

text \<open>
  C7: when the first run of the artifact fails and the run of the repaired version
  succeeds, \<open>runFileAndFixIfError\<close> returns normally after one call to the generation
  service, between the two runs. The file then holds the response of that call, trimmed
  and stripped of its fences, provided the file system reads back what is written and
  the second run leaves the file as it is.
\<close>

theorem repaired_version_on_disk:
  assumes firstFails:
        "execAsync sys (js ''node '' @ filePath) None (env w) = (ExecError stderr message, e1)"
      and failing: "readFile sys filePath e1 = Some code"
      and repair: "generateContent sys (fixPrompt code (diagnosticOf stderr message) task) e1
             = (GenText fixed, e2)"
      and dir: "mkdir sys (dirname filePath) e2 = (True, e3)"
      and written: "writeFile sys filePath (stripCodeFences (trim fixed)) e3 = (True, e4)"
      and secondRuns: "execAsync sys (js ''node '' @ filePath) None e4 = (ExecOk out err, e5)"
      and fs: "readsBackWrites sys"
      and kept: "readFile sys filePath e5 = readFile sys filePath e4"
  shows "runFileAndFixIfError sys filePath task w
           = Some (Inr (),
               \<lparr>env = e5,
                trace = trace w @ [Spawned (js ''node '' @ filePath) None,
                  Asked RunFileAndFixIfError (fixPrompt code (diagnosticOf stderr message) task),
                  Spawned (js ''node '' @ filePath) None]\<rparr>)
         \<and> readFile sys filePath e5 = Some (stripCodeFences (trim fixed))"
proof -
  have "readFile sys filePath e4 = Some (stripCodeFences (trim fixed))"
    using fs written unfolding readsBackWrites_def by blast
  moreover have "runFileAndFixIfError sys filePath task w
           = Some (Inr (),
               \<lparr>env = e5,
                trace = trace w @ [Spawned (js ''node '' @ filePath) None,
                  Asked RunFileAndFixIfError (fixPrompt code (diagnosticOf stderr message) task),
                  Spawned (js ''node '' @ filePath) None]\<rparr>)"
    using runFileAndFixIfError_repair [of sys filePath w stderr message e1 code task fixed e2 e3 e4]
      firstFails failing repair dir written
    by (simp add: runFileAndFixIfError_ok [where out = out and err = err and ?e1.0 = e5]
          secondRuns runCommand_def)
  ultimately show ?thesis using kept by simp
qed

lemma readsBackWrites_scripted: "readsBackWrites scripted"
  by (simp add: readsBackWrites_def scripted_def)

theorem repaired_version_on_disk_witness:
  "runFileAndFixIfError scripted (js ''/w/app.js'') (js ''print one'') (start repairScript)
     = Some (Inr (),
         \<lparr>env = repairedScript,
          trace = [Spawned (js ''node /w/app.js'') None,
            Asked RunFileAndFixIfError
              (fixPrompt (js ''consle.log(1)'') (js ''ReferenceError: consle is not defined'')
                 (js ''print one'')),
            Spawned (js ''node /w/app.js'') None]\<rparr>)
   \<and> readFile scripted (js ''/w/app.js'') repairedScript = Some (js ''console.log(1)'')"
proof -
  let ?p = "js ''/w/app.js''"
  let ?e1 = "repairScript\<lparr>execResults := [ExecOk (js ''1'') []]\<rparr>"
  let ?e2 = "?e1\<lparr>responses := []\<rparr>"
  let ?e3 = "?e2\<lparr>dirs := [js ''/w'', js ''/w'']\<rparr>"
  let ?e4 = "?e3\<lparr>files := [(?p, js ''console.log(1)''), (?p, js ''consle.log(1)'')]\<rparr>"
  have strip: "stripCodeFences (trim (js ''```js\<newline>console.log(1)\<newline>```'')) = js ''console.log(1)''"
    by (simp add: string_defs strip_defs)
  have h1: "execAsync scripted (js ''node '' @ ?p) None (env (start repairScript))
      = (ExecError (js ''ReferenceError: consle is not defined'') (js ''Command failed''), ?e1)"
    by (simp add: env_defs repairScript_def)
  have h2: "readFile scripted ?p ?e1 = Some (js ''consle.log(1)'')"
    by (simp add: env_defs repairScript_def)
  have h3: "generateContent scripted
      (fixPrompt (js ''consle.log(1)'')
         (diagnosticOf (js ''ReferenceError: consle is not defined'') (js ''Command failed''))
         (js ''print one'')) ?e1
      = (GenText (js ''```js\<newline>console.log(1)\<newline>```''), ?e2)"
    by (simp add: env_defs repairScript_def)
  have h4: "mkdir scripted (dirname ?p) ?e2 = (True, ?e3)"
    by (simp add: env_defs repairScript_def path_defs js_def)
  have h5: "writeFile scripted ?p
      (stripCodeFences (trim (js ''```js\<newline>console.log(1)\<newline>```''))) ?e3 = (True, ?e4)"
    unfolding strip by (simp add: env_defs repairScript_def)
  have h6: "execAsync scripted (js ''node '' @ ?p) None ?e4 = (ExecOk (js ''1'') [], repairedScript)"
    by (simp add: env_defs repairScript_def repairedScript_def)
  have h7: "readFile scripted ?p repairedScript = readFile scripted ?p ?e4"
    by (simp add: env_defs repairScript_def repairedScript_def)
  have d: "diagnosticOf (js ''ReferenceError: consle is not defined'') (js ''Command failed'')
      = js ''ReferenceError: consle is not defined''"
    by (simp add: diagnosticOf_def js_def)
  have n: "js ''node '' @ ?p = js ''node /w/app.js''"
    by (simp add: js_def)
  show ?thesis
    using repaired_version_on_disk [OF h1 h2 h3 h4 h5 h6 readsBackWrites_scripted h7]
    unfolding strip d n by (simp add: start_def)
qed

section \<open>The ceiling of three attempts (C8)\<close>

text \<open>
  C8: when the operator gives a task other than \<open>exit\<close> and three attempts in a row
  fail, each with feedback supplied, \<open>main\<close> returns after the third with the report
  that the maximum of attempts is reached, and the run has made three calls to the
  planning service and no fourth.
\<close>

theorem three_failures_end_the_run:
  assumes task: "onEnv (promptInput sys AskTask) w = (Some rawTask, w0)"
        "toLowerCase rawTask \<noteq> js ''exit''"
      and first: "failedAttempt sys rawTask
          \<lparr>currentDir = cwd sys (env w), executedCommands = [], projectRoot = None\<rparr> w0
          task1 state1 w1"
      and second: "failedAttempt sys task1 state1 w1 task2 state2 w2"
      and third: "failedAttempt sys task2 state2 w2 task3 state3 w3"
  shows "main sys w = Some (MaxAttemptsReached, w3)
         \<and> planningCalls (trace w3) = planningCalls (trace w) + 3"
proof -
  let ?state0 = "\<lparr>currentDir = cwd sys (env w), executedCommands = [], projectRoot = None\<rparr>"
  have l3: "mainLoop sys 3 task3 state3 w3 = Some (MaxAttemptsReached, w3)"
    by (subst mainLoop.simps) simp
  have l2: "mainLoop sys 2 task2 state2 w2 = mainLoop sys 3 task3 state3 w3"
    using third [unfolded failedAttempt_attemptPass] by (subst mainLoop.simps) simp
  have l1: "mainLoop sys 1 task1 state1 w1 = mainLoop sys 2 task2 state2 w2"
    using second [unfolded failedAttempt_attemptPass]
    by (subst mainLoop.simps) (simp add: numeral_2_eq_2)
  have l0: "mainLoop sys 0 rawTask ?state0 w0 = mainLoop sys 1 task1 state1 w1"
    using first [unfolded failedAttempt_attemptPass] by (subst mainLoop.simps) simp
  have "main sys w = Some (MaxAttemptsReached, w3)"
    using task l0 l1 l2 l3 by (simp add: main_def)
  moreover have "planningCalls (trace w3) = planningCalls (trace w) + 3"
    using failedAttempt_planningCalls [OF first] failedAttempt_planningCalls [OF second]
      failedAttempt_planningCalls [OF third] onEnv_trace [OF task(1)]
    by simp
  ultimately show ?thesis by (rule conjI)
qed

theorem three_failures_end_the_run_witness:
  "main scripted (start retryScript) = Some (MaxAttemptsReached, retryFinalWorld)
   \<and> planningCalls (trace retryFinalWorld) = planningCalls (trace (start retryScript)) + 3"
proof -
  let ?p = "\<lambda>task. Asked GetRefinedPlan (planContext initialState @ js ''\<newline>\<newline>Task: '' @ task)"
  let ?s = "Spawned (js ''npm test'') (Some (js ''/w''))"
  let ?t1 = "js ''ship it'' @ js ''\<newline>Error: '' @ js ''still red''"
  let ?t2 = "?t1 @ js ''\<newline>Error: '' @ js ''still red''"
  have task: "onEnv (promptInput scripted AskTask) (start retryScript)
      = (Some (js ''ship it''), \<lparr>env = retryScriptLeft (Suc (Suc (Suc 0))), trace = []\<rparr>)"
    by (simp add: env_defs retryScript_def retryScriptLeft_def)
  have noExit: "toLowerCase (js ''ship it'') \<noteq> js ''exit''"
    by (simp add: string_defs)
  have state0: "\<lparr>currentDir = cwd scripted (env (start retryScript)), executedCommands = [],
      projectRoot = None\<rparr> = initialState"
    by (simp add: env_defs retryScript_def initialState_def)
  have a1: "failedAttempt scripted (js ''ship it'')
      \<lparr>currentDir = cwd scripted (env (start retryScript)), executedCommands = [],
        projectRoot = None\<rparr> \<lparr>env = retryScriptLeft (Suc (Suc (Suc 0))), trace = []\<rparr>
      ?t1 initialState \<lparr>env = retryScriptLeft (Suc (Suc 0)), trace = [?p (js ''ship it''), ?s]\<rparr>"
    unfolding state0 using retry_attempt [of "js ''ship it''" "Suc (Suc 0)" "[]"] by simp
  have a2: "failedAttempt scripted ?t1 initialState
      \<lparr>env = retryScriptLeft (Suc (Suc 0)), trace = [?p (js ''ship it''), ?s]\<rparr>
      ?t2 initialState
      \<lparr>env = retryScriptLeft (Suc 0), trace = [?p (js ''ship it''), ?s, ?p ?t1, ?s]\<rparr>"
    using retry_attempt [of ?t1 "Suc 0" "[?p (js ''ship it''), ?s]"] by simp
  have a3: "failedAttempt scripted ?t2 initialState
      \<lparr>env = retryScriptLeft (Suc 0), trace = [?p (js ''ship it''), ?s, ?p ?t1, ?s]\<rparr>
      (?t2 @ js ''\<newline>Error: '' @ js ''still red'') initialState retryFinalWorld"
    using retry_attempt [of ?t2 0 "[?p (js ''ship it''), ?s, ?p ?t1, ?s]"]
    by (simp add: retryFinalWorld_def)
  show ?thesis
    by (rule three_failures_end_the_run [OF task noExit a1 a2 a3])
qed

section \<open>The effect of a directory change (C9)\<close>










section \<open>Abort leaves the failing command out of the history (C10)\<close>

text \<open>
  C10: when \<open>executePlan\<close> returns \<open>success = false\<close>, the commands of the plan split into
  those before the failing one, the failing one, and the rest. Those before it ran
  through; the failing one, a directory change or a shell command, was not in the
  history and is not added to it; the history returned is the one the commands before
  it left: the history at the start, with each of them added once, in order, unless it
  was there already.
\<close>

theorem abort_leaves_failing_command_out:
  assumes "executePlan sys plan state task w = Some (Inr (False, state'), w')"
  shows "\<exists>completed failing rest state1 w1.
           planCommands plan = completed @ failing # rest
           \<and> execCommands sys task completed state w = Some (Inr (True, state1), w1)
           \<and> execCommands sys task [failing] state1 w1 = Some (Inr (False, state'), w')
           \<and> (\<forall>p. classify failing \<noteq> FileCreation p)
           \<and> failing \<notin> set (executedCommands state')
           \<and> executedCommands state' = recordAll (executedCommands state) completed"
proof -
  from execCommands_abort [OF assms [unfolded executePlan_def]]
  obtain completed failing rest state1 w1 where
    c: "planCommands plan = completed @ failing # rest"
    "execCommands sys task completed state w = Some (Inr (True, state1), w1)"
    "failing \<notin> set (executedCommands state1)"
    "execCommands sys task [failing] state1 w1 = Some (Inr (False, state'), w')"
    "executedCommands state' = executedCommands state1"
    "\<forall>p. classify failing \<noteq> FileCreation p" by blast
  have "executedCommands state1 = recordAll (executedCommands state) completed"
    by (rule execCommands_success_history [OF c(2)])
  with c have "planCommands plan = completed @ failing # rest
           \<and> execCommands sys task completed state w = Some (Inr (True, state1), w1)
           \<and> execCommands sys task [failing] state1 w1 = Some (Inr (False, state'), w')
           \<and> (\<forall>p. classify failing \<noteq> FileCreation p)
           \<and> failing \<notin> set (executedCommands state')
           \<and> executedCommands state' = recordAll (executedCommands state) completed"
    by simp
  then show ?thesis by blast
qed

theorem abort_leaves_failing_command_out_witness:
  "\<exists>completed failing rest state1 w1.
      planCommands threeCommands = completed @ failing # rest
      \<and> execCommands scripted (js ''release'') completed initialState (start abortScript)
            = Some (Inr (True, state1), w1)
      \<and> execCommands scripted (js ''release'') [failing] state1 w1
            = Some (Inr (False, initialState\<lparr>executedCommands := [js ''npm install'']\<rparr>),
                \<lparr>env = homeScript,
                 trace = [Spawned (js ''npm install'') (Some (js ''/w'')),
                          Spawned (js ''npm test'') (Some (js ''/w''))]\<rparr>)
      \<and> (\<forall>p. classify failing \<noteq> FileCreation p)
      \<and> failing \<notin> set (executedCommands (initialState\<lparr>executedCommands := [js ''npm install'']\<rparr>))
      \<and> executedCommands (initialState\<lparr>executedCommands := [js ''npm install'']\<rparr>)
            = recordAll (executedCommands initialState) completed"
proof -
  have run: "executePlan scripted threeCommands initialState (js ''release'') (start abortScript)
     = Some (Inr (False, initialState\<lparr>executedCommands := [js ''npm install'']\<rparr>),
             \<lparr>env = homeScript,
              trace = [Spawned (js ''npm install'') (Some (js ''/w'')),
                       Spawned (js ''npm test'') (Some (js ''/w''))]\<rparr>)"
  proof -
    have ne: "js ''npm test'' \<noteq> js ''npm install''" by (simp add: js_def)
    show ?thesis
      by (simp add: executePlan_def planCommands_threeCommands classify_three runShell_def
            env_defs abortScript_def initialState_def ne)
  qed
  show ?thesis by (rule abort_leaves_failing_command_out [OF run])
qed

end
